theory Spec2Isabelle
  imports Main "HOL-Library.Sublist"
begin

section \<open>Python strings and sequences\<close>

text \<open>
  The two modules \<^verbatim>\<open>oracle_db.py\<close> and \<^verbatim>\<open>oracle_datapatch.py\<close> work on Python
  strings. A string is a \<^typ>\<open>string\<close>; the operations below are the ones the source
  uses: \<^verbatim>\<open>s.startswith(p)\<close>, \<^verbatim>\<open>p in s\<close>, \<^verbatim>\<open>s.split(':')\<close>, \<^verbatim>\<open>s.rstrip('/')\<close>,
  \<^verbatim>\<open>str(b)\<close> and \<^verbatim>\<open>'%s' % x\<close>.
\<close>

fun startswith :: "string \<Rightarrow> string \<Rightarrow> bool" where
  "startswith s [] = True"
| "startswith [] (c # p) = False"
| "startswith (a # s) (c # p) = (a = c \<and> startswith s p)"

fun py_in :: "string \<Rightarrow> string \<Rightarrow> bool" where
  "py_in p [] = (p = [])"
| "py_in p (c # s) = (startswith (c # s) p \<or> py_in p s)"

fun split_on :: "char \<Rightarrow> string \<Rightarrow> string list" where
  "split_on d [] = [[]]"
| "split_on d (c # s) =
     (if c = d then [] # split_on d s
      else (case split_on d s of [] \<Rightarrow> [[c]] | x # xs \<Rightarrow> (c # x) # xs))"

definition rstrip :: "char \<Rightarrow> string \<Rightarrow> string" where
  "rstrip c s = rev (dropWhile (\<lambda>x. x = c) (rev s))"

definition str_bool :: "bool \<Rightarrow> string" where
  "str_bool b = (if b then ''True'' else ''False'')"

text \<open>\<^verbatim>\<open>'%s' % x\<close> for a value that is a string or \<^verbatim>\<open>None\<close>.\<close>

definition str_opt :: "string option \<Rightarrow> string" where
  "str_opt x = (case x of None \<Rightarrow> ''None'' | Some s \<Rightarrow> s)"

text \<open>Python truthiness of a value that is a string or \<^verbatim>\<open>None\<close>.\<close>

definition truthy :: "string option \<Rightarrow> bool" where
  "truthy x = (case x of None \<Rightarrow> False | Some s \<Rightarrow> s \<noteq> [])"

section \<open>The outside world, events and exits\<close>

text \<open>
  Everything the modules do to the host goes through \<^verbatim>\<open>module.run_command\<close>,
  a \<^verbatim>\<open>sqlplus /nolog\<close> subprocess, a database connection with its cursor, and
  \<^verbatim>\<open>time.sleep\<close>. Each such call is an event; an event records the request and the
  answer the host gave. A run threads the list of events so far (oldest first), and the
  host's answer may depend on that whole list, so the host is any deterministic
  environment.

  A cell of a fetched row is a string or SQL \<^verbatim>\<open>NULL\<close> (Python \<^verbatim>\<open>None\<close>).
\<close>

type_synonym cell = "string option"
type_synonym row = "cell list"

datatype event =
    RunCommand string "int \<times> string \<times> string"
  | Sqlplus string string string "int \<times> string \<times> string"
  | Connect string "string option"
  | SqlGet string "string + row list"
  | Sql string "string option"
  | Sleep nat

text \<open>
  \<^item> \<open>RunCommand command (rc, stdout, stderr)\<close>: \<^verbatim>\<open>module.run_command(command)\<close>;
  \<^item> \<open>Sqlplus oracle_sid sqlplus_bin script (rc, stdout, stderr)\<close>: the subprocess
    \<^verbatim>\<open>[sqlplus_bin, '/nolog']\<close> fed \<open>script\<close>, with \<^verbatim>\<open>ORACLE_SID\<close> as just set;
    \<open>stdout\<close> and \<open>stderr\<close> are its two outputs as \<^verbatim>\<open>%s\<close> prints them;
  \<^item> \<open>Connect descriptor err\<close>: \<^verbatim>\<open>cx_Oracle.connect\<close>; \<open>Some m\<close> is a
    \<^verbatim>\<open>DatabaseError\<close> with message \<open>m\<close>;
  \<^item> \<open>SqlGet sql r\<close>: \<^verbatim>\<open>cursor.execute(sql); cursor.fetchall()\<close>; \<open>Inl m\<close> is a
    \<^verbatim>\<open>DatabaseError\<close>;
  \<^item> \<open>Sql sql err\<close>: \<^verbatim>\<open>cursor.execute(sql)\<close>;
  \<^item> \<open>Sleep n\<close>: \<^verbatim>\<open>time.sleep(n)\<close>.
\<close>

record world =
  run_command :: "event list \<Rightarrow> string \<Rightarrow> int \<times> string \<times> string"
  popen_sqlplus :: "event list \<Rightarrow> string \<Rightarrow> string \<Rightarrow> string \<Rightarrow> int \<times> string \<times> string"
  cx_connect :: "event list \<Rightarrow> string \<Rightarrow> string option"
  cursor_fetchall :: "event list \<Rightarrow> string \<Rightarrow> string + row list"
  cursor_execute :: "event list \<Rightarrow> string \<Rightarrow> string option"
  oratab :: "string list option"
  re_search :: "string \<Rightarrow> string \<Rightarrow> bool"
  uname_nodename :: string
  makedsn :: "string \<Rightarrow> string \<Rightarrow> string \<Rightarrow> string"

text \<open>
  \<open>oratab\<close> is \<^verbatim>\<open>/etc/oratab\<close>: \<open>None\<close> when the file does not exist, else its lines,
  each with its line end, as iterating the open file yields them. \<open>re_search p s\<close> is
  whether Python's \<^verbatim>\<open>re.search(p, s)\<close> finds a match, \<open>uname_nodename\<close> is
  \<^verbatim>\<open>os.uname()[1]\<close> and \<open>makedsn host port service_name\<close> is \<^verbatim>\<open>cx_Oracle.makedsn\<close>.

  A module ends a pass with \<^verbatim>\<open>module.exit_json\<close> or \<^verbatim>\<open>module.fail_json\<close> (both leave
  the process), or with an uncaught Python exception.
\<close>

datatype pyexc = IndexError | ValueError

datatype exit =
    ExitJson string bool
  | FailJson string "bool option"
  | Raise pyexc

type_synonym 'a run = "event list \<Rightarrow> (exit + 'a) \<times> event list"

definition ret :: "'a \<Rightarrow> 'a run" where
  "ret x h = (Inr x, h)"

definition halt :: "exit \<Rightarrow> 'a run" where
  "halt e h = (Inl e, h)"

definition and_then :: "'a run \<Rightarrow> ('a \<Rightarrow> 'b run) \<Rightarrow> 'b run" where
  "and_then m k h = (case m h of (Inl e, h') \<Rightarrow> (Inl e, h') | (Inr x, h') \<Rightarrow> k x h')"

text \<open>A computation that touches nothing outside: it ends the pass or gives a value.\<close>

definition lift :: "exit + 'a \<Rightarrow> 'a run" where
  "lift r h = (case r of Inl e \<Rightarrow> (Inl e, h) | Inr x \<Rightarrow> (Inr x, h))"

text \<open>\<^verbatim>\<open>xs[n]\<close> for \<open>n \<ge> 0\<close>: an \<^verbatim>\<open>IndexError\<close> out of range.\<close>

definition index :: "'a list \<Rightarrow> nat \<Rightarrow> exit + 'a" where
  "index xs n = (if n < length xs then Inr (xs ! n) else Inl (Raise IndexError))"

definition module_run_command :: "world \<Rightarrow> string \<Rightarrow> (int \<times> string \<times> string) run" where
  "module_run_command w command h =
     (let r = run_command w h command in (Inr r, h @ [RunCommand command r]))"

definition sqlplus_nolog ::
  "world \<Rightarrow> string \<Rightarrow> string \<Rightarrow> string \<Rightarrow> (int \<times> string \<times> string) run" where
  "sqlplus_nolog w oracle_sid sqlplus_bin script h =
     (let r = popen_sqlplus w h oracle_sid sqlplus_bin script
      in (Inr r, h @ [Sqlplus oracle_sid sqlplus_bin script r]))"

definition time_sleep :: "nat \<Rightarrow> unit run" where
  "time_sleep n h = (Inr (), h @ [Sleep n])"

section \<open>oracle\_db: process globals and the database session\<close>

text \<open>
  The globals of \<^verbatim>\<open>oracle_db.py\<close> that the functions below read, as \<^verbatim>\<open>main\<close> sets them
  before it dispatches on \<^verbatim>\<open>state\<close>.
\<close>

record ctx =
  gimanaged :: bool
  user :: "string option"
  password :: "string option"
  service_name :: string
  port :: string
  newdb :: bool
  output' :: string
  verboselist :: "string list"

definition getconn :: "ctx \<Rightarrow> world \<Rightarrow> unit run" where
  "getconn g w h =
     (let wallet_connect = ''/@'' @ service_name g in
      if \<not> truthy (user g) \<and> \<not> truthy (password g) then
        (let r = cx_connect w h wallet_connect; h' = h @ [Connect wallet_connect r] in
         case r of
           None \<Rightarrow> (Inr (), h')
         | Some m \<Rightarrow>
             (Inl (FailJson (''Could not connect to database - '' @ m @
                 '', connect descriptor: '' @ wallet_connect) (Some False)), h'))
      else if truthy (user g) \<and> truthy (password g) then
        (let dsn = makedsn w (uname_nodename w) (port g) (service_name g);
             r = cx_connect w h dsn; h' = h @ [Connect dsn r] in
         case r of
           None \<Rightarrow> (Inr (), h')
         | Some m \<Rightarrow>
             (Inl (FailJson (''Could not connect to database - '' @ m @
                 '', connect descriptor: '' @ dsn) (Some False)), h'))
      else (Inl (FailJson ''Missing username or password for cx_Oracle'' None), h))"

definition execute_sql_get :: "world \<Rightarrow> string \<Rightarrow> row list run" where
  "execute_sql_get w sql h =
     (let r = cursor_fetchall w h sql; h' = h @ [SqlGet sql r] in
      case r of
        Inl m \<Rightarrow>
          (Inl (FailJson (''Something went wrong while executing sql_get - '' @ m @
              '' sql: '' @ sql) (Some False)), h')
      | Inr result \<Rightarrow> (Inr result, h'))"

definition execute_sql :: "world \<Rightarrow> string \<Rightarrow> bool run" where
  "execute_sql w sql h =
     (let r = cursor_execute w h sql; h' = h @ [Sql sql r] in
      case r of
        Some m \<Rightarrow>
          (Inl (FailJson (''Something went wrong while executing sql - '' @ m @
              '' sql: '' @ sql) (Some False)), h')
      | None \<Rightarrow> (Inr True, h'))"

section \<open>The instance locator\<close>

text \<open>
  \<^verbatim>\<open>check_db_exists\<close> returns \<^verbatim>\<open>True\<close>, \<^verbatim>\<open>False\<close> or (falling off its end)
  \<^verbatim>\<open>None\<close>: \<open>Some True\<close>, \<open>Some False\<close> and \<open>None\<close>. Its callers test the result
  for truth.
\<close>

definition is_true :: "bool option \<Rightarrow> bool" where
  "is_true r = (r = Some True)"

definition different_home_msg :: "string \<Rightarrow> string \<Rightarrow> string" where
  "different_home_msg db_name home =
     ''Database '' @ db_name @ '' already exists in a different ORACLE_HOME ('' @ home @ '')''"

text \<open>
  The loops over \<^verbatim>\<open>existingdbs\<close> touch nothing outside. One turn of a loop either goes
  on to the next line, or leaves the function with a value, or ends the pass.
\<close>

datatype 'a step = Next | Return 'a

text \<open>
  The test both locators make on a line they take for the database's:
  \<^verbatim>\<open>if dbs.split(':')[1] != oracle_home.rstrip('/'): fail_json(...)\<close>,
  \<^verbatim>\<open>elif dbs.split(':')[1] == oracle_home.rstrip('/'): return True\<close>.
\<close>

definition check_home :: "string \<Rightarrow> string \<Rightarrow> string \<Rightarrow> exit + bool option step" where
  "check_home oracle_home db_name dbs =
     (case index (split_on CHR '':'' dbs) 1 of
        Inl e \<Rightarrow> Inl e
      | Inr home \<Rightarrow>
          if home \<noteq> rstrip CHR ''/'' oracle_home then
            Inl (FailJson (different_home_msg db_name home) (Some False))
          else if home = rstrip CHR ''/'' oracle_home then Inr (Return (Some True))
          else Inr Next)"

definition scan_entry :: "string \<Rightarrow> string \<Rightarrow> string \<Rightarrow> string \<Rightarrow> exit + bool option step" where
  "scan_entry oracle_home db_name sid dbs =
     (if sid \<noteq> [] then
        (if py_in (db_name @ '':'') dbs \<or> py_in (sid @ '':'') dbs then
           check_home oracle_home db_name dbs
         else Inr Next)
      else
        (if py_in (db_name @ '':'') dbs then check_home oracle_home db_name dbs
         else Inr Next))"

fun scan_existingdbs :: "string \<Rightarrow> string \<Rightarrow> string \<Rightarrow> string list \<Rightarrow> exit + bool option" where
  "scan_existingdbs oracle_home db_name sid [] = Inr None"
| "scan_existingdbs oracle_home db_name sid (dbs # rest) =
     (case scan_entry oracle_home db_name sid dbs of
        Inl e \<Rightarrow> Inl e
      | Inr (Return v) \<Rightarrow> Inr v
      | Inr Next \<Rightarrow> scan_existingdbs oracle_home db_name sid rest)"

definition check_db_exists ::
  "ctx \<Rightarrow> world \<Rightarrow> string \<Rightarrow> string \<Rightarrow> string option \<Rightarrow> string option \<Rightarrow> bool option run" where
  "check_db_exists g w oracle_home db_name sid0 db_unique_name =
     (let sid = (case sid0 of None \<Rightarrow> [] | Some s \<Rightarrow> s) in
      if gimanaged g then
        (let checkdb = (case db_unique_name of Some u \<Rightarrow> u | None \<Rightarrow> db_name);
             command = oracle_home @ ''/bin/srvctl config database -d '' @ checkdb @ '' '' in
         and_then (module_run_command w command) (\<lambda>(rc, stdout, stderr).
           if rc \<noteq> 0 then
             (if py_in ''PRCD-1229'' stdout then
                halt (FailJson (''Database '' @ db_name @
                  '' already exists in a different home. Stdout -> '' @ stdout) (Some False))
              else if py_in db_name stdout then ret (Some False)
              else ret (Some False))
           else if py_in (''Database name: '' @ db_name) stdout then ret (Some True)
           else ret (Some True)))
      else
        (let existingdbs =
               (case oratab w of
                  None \<Rightarrow> []
                | Some lines \<Rightarrow>
                    filter (\<lambda>line. \<not> (startswith line ''#'' \<or> startswith line '' '') \<and>
                                   (re_search w (db_name @ '':'') line \<or>
                                    re_search w (sid @ '':'') line)) lines) in
         if existingdbs = [] then ret (Some False)
         else lift (scan_existingdbs oracle_home db_name sid existingdbs)))"

subsection \<open>The locator of oracle\_datapatch\<close>

text \<open>
  \<^verbatim>\<open>oracle_datapatch.check_db_exists\<close> reads one global, \<^verbatim>\<open>gimanaged\<close>, and keeps
  \<^verbatim>\<open>sid\<close> as given (\<^verbatim>\<open>None\<close> when absent). In its loop the \<^verbatim>\<open>else\<close> belongs to the
  test of the line against the two keys, and the last \<^verbatim>\<open>elif\<close> to the test of the line
  against the name.
\<close>

definition datapatch_scan_entry ::
  "string \<Rightarrow> string \<Rightarrow> string option \<Rightarrow> string \<Rightarrow> exit + bool option step" where
  "datapatch_scan_entry oracle_home db_name sid dbs =
     (if sid \<noteq> Some [] then
        (if py_in (db_name @ '':'') dbs \<or> py_in (str_opt sid @ '':'') dbs then
           check_home oracle_home db_name dbs
         else
           (if py_in (db_name @ '':'') dbs then
              (case index (split_on CHR '':'' dbs) 1 of
                 Inl e \<Rightarrow> Inl e
               | Inr home \<Rightarrow>
                   if home \<noteq> rstrip CHR ''/'' oracle_home then
                     Inl (FailJson (different_home_msg db_name home) (Some False))
                   else Inr Next)
            else
              (case index (split_on CHR '':'' dbs) 1 of
                 Inl e \<Rightarrow> Inl e
               | Inr home \<Rightarrow>
                   if home = rstrip CHR ''/'' oracle_home then Inr (Return (Some True))
                   else Inr Next)))
      else Inr Next)"

fun datapatch_scan_existingdbs ::
  "string \<Rightarrow> string \<Rightarrow> string option \<Rightarrow> string list \<Rightarrow> exit + bool option" where
  "datapatch_scan_existingdbs oracle_home db_name sid [] = Inr None"
| "datapatch_scan_existingdbs oracle_home db_name sid (dbs # rest) =
     (case datapatch_scan_entry oracle_home db_name sid dbs of
        Inl e \<Rightarrow> Inl e
      | Inr (Return v) \<Rightarrow> Inr v
      | Inr Next \<Rightarrow> datapatch_scan_existingdbs oracle_home db_name sid rest)"

definition datapatch_check_db_exists ::
  "bool \<Rightarrow> world \<Rightarrow> string \<Rightarrow> string \<Rightarrow> string option \<Rightarrow> string option \<Rightarrow> bool option run" where
  "datapatch_check_db_exists gimanaged' w oracle_home db_name sid db_unique_name =
     (if gimanaged' then
        (let checkdb = (case db_unique_name of Some u \<Rightarrow> u | None \<Rightarrow> db_name);
             command = oracle_home @ ''/bin/srvctl config database -d '' @ checkdb @ '' '' in
         and_then (module_run_command w command) (\<lambda>(rc, stdout, stderr).
           if rc \<noteq> 0 then
             (if py_in db_name stdout then ret (Some False)
              else ret (Some False))
           else if py_in (''Database name: '' @ db_name) stdout then ret (Some True)
           else ret None))
      else
        (let existingdbs =
               (case oratab w of
                  None \<Rightarrow> []
                | Some lines \<Rightarrow>
                    filter (\<lambda>line. \<not> (startswith line ''#'' \<or> startswith line '' '') \<and>
                                   (re_search w (''^'' @ db_name @ '':'') line \<or>
                                    (sid \<noteq> None \<and>
                                     re_search w (''^'' @ str_opt sid @ '':'') line))) lines) in
         if existingdbs = [] then ret (Some False)
         else lift (datapatch_scan_existingdbs oracle_home db_name sid existingdbs)))"

section \<open>The lifecycle controller\<close>

definition error_msg :: "string \<Rightarrow> string \<Rightarrow> string \<Rightarrow> string" where
  "error_msg stdout stderr command =
     ''Error - STDOUT: '' @ stdout @ '', STDERR: '' @ stderr @ '', COMMAND: '' @ command"

text \<open>The scripts fed to \<^verbatim>\<open>sqlplus /nolog\<close>, with the line breaks and indentation of the source.\<close>

definition shutdown_sql :: string where
  "shutdown_sql =
     ''\<newline>        connect / as sysdba\<newline>        shutdown immediate;\<newline>        exit\<newline>        ''"

definition startup_sql :: string where
  "startup_sql =
     ''\<newline>        connect / as sysdba\<newline>        startup;\<newline>        exit\<newline>        ''"

definition startup_mount_sql :: string where
  "startup_mount_sql =
     ''\<newline>        connect / as sysdba\<newline>        startup mount;\<newline>        exit\<newline>        ''"

definition stop_db ::
  "ctx \<Rightarrow> world \<Rightarrow> string \<Rightarrow> string \<Rightarrow> string option \<Rightarrow> string option \<Rightarrow> bool run" where
  "stop_db g w oracle_home db_name db_unique_name sid =
     (if gimanaged g then
        (let db_name' = (case db_unique_name of Some u \<Rightarrow> u | None \<Rightarrow> db_name);
             command = oracle_home @ ''/bin/srvctl stop database -d '' @ db_name' @ '' -o immediate'' in
         and_then (module_run_command w command) (\<lambda>(rc, stdout, stderr).
           if rc \<noteq> 0 then halt (FailJson (error_msg stdout stderr command) (Some False))
           else ret True))
      else
        (let oracle_sid = (case sid of Some s \<Rightarrow> s | None \<Rightarrow> db_name);
             sqlplus_bin = oracle_home @ ''/bin/sqlplus'' in
         and_then (sqlplus_nolog w oracle_sid sqlplus_bin shutdown_sql) (\<lambda>(rc, stdout, stderr).
           if rc \<noteq> 0 then halt (FailJson (error_msg stdout stderr shutdown_sql) (Some False))
           else ret True)))"

definition start_db ::
  "ctx \<Rightarrow> world \<Rightarrow> string \<Rightarrow> string \<Rightarrow> string option \<Rightarrow> string option \<Rightarrow> bool run" where
  "start_db g w oracle_home db_name db_unique_name sid =
     (if gimanaged g then
        (let db_name' = (case db_unique_name of Some u \<Rightarrow> u | None \<Rightarrow> db_name);
             command = oracle_home @ ''/bin/srvctl start database -d '' @ db_name' in
         and_then (module_run_command w command) (\<lambda>(rc, stdout, stderr).
           if rc \<noteq> 0 then halt (FailJson (error_msg stdout stderr command) (Some False))
           else ret True))
      else
        (let oracle_sid = (case sid of Some s \<Rightarrow> s | None \<Rightarrow> db_name);
             sqlplus_bin = oracle_home @ ''/bin/sqlplus'' in
         and_then (sqlplus_nolog w oracle_sid sqlplus_bin startup_sql) (\<lambda>(rc, stdout, stderr).
           if rc \<noteq> 0 then halt (FailJson (error_msg stdout stderr startup_sql) (Some False))
           else ret True)))"

text \<open>
  \<open>instance_name\<close> is the cell \<^verbatim>\<open>israc_[0][1]\<close> read by the caller, formatted with
  \<^verbatim>\<open>%s\<close>. Outside cluster-managed mode \<open>open_mode\<close> is not read: the script is always
  \<^verbatim>\<open>startup mount\<close>.
\<close>

definition start_instance ::
  "ctx \<Rightarrow> world \<Rightarrow> string \<Rightarrow> string \<Rightarrow> string option \<Rightarrow> string option \<Rightarrow> string option \<Rightarrow>
   cell \<Rightarrow> bool \<Rightarrow> bool run" where
  "start_instance g w oracle_home db_name db_unique_name sid open_mode instance_name israc =
     (if gimanaged g then
        (let db_name' = (case db_unique_name of Some u \<Rightarrow> u | None \<Rightarrow> db_name);
             command0 =
               (if israc then
                  oracle_home @ ''/bin/srvctl start instance  -d '' @ db_name' @ '' -i '' @
                    str_opt instance_name
                else oracle_home @ ''/bin/srvctl start database -d '' @ db_name' @ '' '');
             command =
               (case open_mode of
                  Some m \<Rightarrow> command0 @ '' -o '' @ m @ '' ''
                | None \<Rightarrow> command0) in
         and_then (module_run_command w command) (\<lambda>(rc, stdout, stderr).
           if rc \<noteq> 0 then halt (FailJson (error_msg stdout stderr command) (Some False))
           else ret True))
      else
        (let oracle_sid = (case sid of Some s \<Rightarrow> s | None \<Rightarrow> db_name);
             sqlplus_bin = oracle_home @ ''/bin/sqlplus'' in
         and_then (sqlplus_nolog w oracle_sid sqlplus_bin startup_mount_sql)
           (\<lambda>(rc, stdout, stderr).
             if rc \<noteq> 0 then
               halt (FailJson (error_msg stdout stderr startup_mount_sql) (Some False))
             else ret True)))"

section \<open>Applying changes\<close>

text \<open>
  The loop of \<^verbatim>\<open>apply_restart_changes\<close>: the stop and the start stand inside the
  \<^verbatim>\<open>for\<close>, after the statement. The message the source builds after the start is never
  used and is left out.
\<close>

fun restart_loop ::
  "ctx \<Rightarrow> world \<Rightarrow> string \<Rightarrow> string \<Rightarrow> string option \<Rightarrow> string option \<Rightarrow> string list \<Rightarrow>
   unit run" where
  "restart_loop g w oracle_home db_name db_unique_name sid [] = ret ()"
| "restart_loop g w oracle_home db_name db_unique_name sid (sql # rest) =
     and_then (execute_sql w sql) (\<lambda>_.
     and_then (stop_db g w oracle_home db_name db_unique_name sid) (\<lambda>stopped.
       if stopped then
         and_then (start_db g w oracle_home db_name db_unique_name sid) (\<lambda>started.
           restart_loop g w oracle_home db_name db_unique_name sid rest)
       else restart_loop g w oracle_home db_name db_unique_name sid rest))"

definition apply_restart_changes ::
  "ctx \<Rightarrow> world \<Rightarrow> string \<Rightarrow> string \<Rightarrow> string option \<Rightarrow> string option \<Rightarrow> cell \<Rightarrow> bool \<Rightarrow>
   string \<Rightarrow> string list \<Rightarrow> unit run" where
  "apply_restart_changes g w oracle_home db_name db_unique_name sid instance_name israc
     archcomp change_restart_sql =
     and_then (stop_db g w oracle_home db_name db_unique_name sid) (\<lambda>stopped.
       if stopped then
         and_then
           (start_instance g w oracle_home db_name db_unique_name sid (Some ''mount'')
              instance_name israc)
           (\<lambda>mounted.
             if mounted then
               and_then (time_sleep 10) (\<lambda>_.
               and_then (getconn g w) (\<lambda>cursor.
                 restart_loop g w oracle_home db_name db_unique_name sid change_restart_sql))
             else ret ())
       else ret ())"

fun norestart_loop :: "world \<Rightarrow> string list \<Rightarrow> unit run" where
  "norestart_loop w [] = ret ()"
| "norestart_loop w (sql # rest) = and_then (execute_sql w sql) (\<lambda>_. norestart_loop w rest)"

definition apply_norestart_changes :: "ctx \<Rightarrow> world \<Rightarrow> string list \<Rightarrow> unit run" where
  "apply_norestart_changes g w change_db_sql =
     and_then (getconn g w) (\<lambda>cursor. norestart_loop w change_db_sql)"

section \<open>The reconciliation pass: ensure\_db\_state\<close>

definition then_e :: "exit + 'a \<Rightarrow> ('a \<Rightarrow> exit + 'b) \<Rightarrow> exit + 'b" where
  "then_e r k = (case r of Inl e \<Rightarrow> Inl e | Inr x \<Rightarrow> k x)"

text \<open>\<^verbatim>\<open>rows[i][j]\<close>.\<close>

definition index2 :: "row list \<Rightarrow> nat \<Rightarrow> nat \<Rightarrow> exit + cell" where
  "index2 rows i j = then_e (index rows i) (\<lambda>r. index r j)"

text \<open>\<^verbatim>\<open>a, b, c = rows\<close>: a \<^verbatim>\<open>ValueError\<close> unless there are exactly three.\<close>

definition unpack3 :: "'a list \<Rightarrow> exit + 'a \<times> 'a \<times> 'a" where
  "unpack3 xs = (case xs of [a, b, c] \<Rightarrow> Inr (a, b, c) | _ \<Rightarrow> Inl (Raise ValueError))"

text \<open>\<^verbatim>\<open>sep.join(xs)\<close>.\<close>

fun join :: "string \<Rightarrow> string list \<Rightarrow> string" where
  "join sep [] = []"
| "join sep [x] = x"
| "join sep (x # y # ys) = x @ sep @ join sep (y # ys)"

definition propsql :: string where
  "propsql = ''select lower(property_value) from database_properties'' @
     '' where property_name in ('DEFAULT_TBS_TYPE','DEFAULT_PERMANENT_TABLESPACE','DEFAULT_TEMP_TABLESPACE')'' @
     '' order by 1''"

definition israc_sql :: string where
  "israc_sql = ''select parallel,instance_name,host_name from v$instance''"

definition log_check_sql :: string where
  "log_check_sql = ''select log_mode,force_logging, flashback_on from v$database''"

definition alterdb_sql :: string where
  "alterdb_sql = ''alter database''"

definition archcomp_of :: "bool \<Rightarrow> string" where
  "archcomp_of archivelog = (if archivelog then ''ARCHIVELOG'' else ''NOARCHIVELOG'')"

definition archsql_of :: "bool \<Rightarrow> string" where
  "archsql_of archivelog =
     (if archivelog then alterdb_sql @ '' archivelog'' else alterdb_sql @ '' noarchivelog'')"

definition flcomp_of :: "bool \<Rightarrow> string" where
  "flcomp_of force_logging = (if force_logging then ''YES'' else ''NO'')"

definition flsql_of :: "bool \<Rightarrow> string" where
  "flsql_of force_logging =
     (if force_logging then alterdb_sql @ '' force logging''
      else alterdb_sql @ '' no force logging'')"

definition fbcomp_of :: "bool \<Rightarrow> string" where
  "fbcomp_of flashback = (if flashback then ''YES'' else ''NO'')"

definition fbsql_of :: "bool \<Rightarrow> string" where
  "fbsql_of flashback =
     (if flashback then alterdb_sql @ '' flashback on'' else alterdb_sql @ '' flashback off'')"

definition deftbstypesql_of :: "string \<Rightarrow> string" where
  "deftbstypesql_of default_tablespace_type =
     ''alter database set default '' @ default_tablespace_type @ '' tablespace ''"

definition deftbssql_of :: "string \<Rightarrow> string" where
  "deftbssql_of default_tablespace = ''alter database default tablespace '' @ default_tablespace"

definition deftempsql_of :: "string \<Rightarrow> string" where
  "deftempsql_of default_temp_tablespace =
     ''alter database default temporary tablespace '' @ default_temp_tablespace"

text \<open>
  The declared properties, as \<^verbatim>\<open>main\<close> hands them to \<^verbatim>\<open>ensure_db_state\<close>:
  \<^verbatim>\<open>default_tablespace_type\<close> always has a value (its default is \<^verbatim>\<open>smallfile\<close>), the two
  tablespace names are optional.
\<close>

record declared =
  archivelog :: bool
  force_logging :: bool
  flashback :: bool
  default_tablespace_type :: string
  default_tablespace :: "string option"
  default_temp_tablespace :: "string option"

text \<open>
  What the pass has read once its three queries are answered: the three rows of
  \<open>propsql\<close> in the order they came, and the rows of the other two queries.
\<close>

record observed =
  def_tbs_type :: row
  def_tbs :: row
  def_temp_tbs :: row
  israc_rows :: "row list"
  log_check_rows :: "row list"

text \<open>
  The divergence tests of \<^verbatim>\<open>ensure_db_state\<close> (lines 563 to 582), in the order of the
  source: the result is \<open>(change_restart_sql, change_db_sql)\<close>.
\<close>

definition plan_changes :: "declared \<Rightarrow> observed \<Rightarrow> exit + string list \<times> string list" where
  "plan_changes d ob =
     then_e (index (def_tbs_type ob) 0) (\<lambda>tbs_type.
     then_e (case default_tablespace d of
               None \<Rightarrow> Inr []
             | Some t \<Rightarrow>
                 then_e (index (def_tbs ob) 0) (\<lambda>tbs.
                   Inr (if tbs \<noteq> Some t then [deftbssql_of t] else []))) (\<lambda>c2.
     then_e (case default_temp_tablespace d of
               None \<Rightarrow> Inr []
             | Some t \<Rightarrow>
                 then_e (index (def_temp_tbs ob) 0) (\<lambda>tbs.
                   Inr (if tbs \<noteq> Some t then [deftempsql_of t] else []))) (\<lambda>c3.
     then_e (index2 (log_check_rows ob) 0 0) (\<lambda>log_mode.
     then_e (index2 (log_check_rows ob) 0 1) (\<lambda>force_logging'.
     then_e (index2 (log_check_rows ob) 0 2) (\<lambda>flashback_on.
       Inr (if log_mode \<noteq> Some (archcomp_of (archivelog d)) then [archsql_of (archivelog d)]
            else [],
            (if tbs_type \<noteq> Some (default_tablespace_type d)
             then [deftbstypesql_of (default_tablespace_type d)] else []) @ c2 @ c3 @
            (if force_logging' \<noteq> Some (flcomp_of (force_logging d))
             then [flsql_of (force_logging d)] else []) @
            (if flashback_on \<noteq> Some (fbcomp_of (flashback d))
             then [fbsql_of (flashback d)] else []))))))))"

text \<open>
  The test of line 586:
  \<^verbatim>\<open>log_check_[0][0] == 'ARCHIVELOG' and log_check_[0][2] == 'YES' and not archivelog and not flashback\<close>.
\<close>

definition flashback_first :: "declared \<Rightarrow> observed \<Rightarrow> exit + bool" where
  "flashback_first d ob =
     then_e (index2 (log_check_rows ob) 0 0) (\<lambda>log_mode.
       if log_mode = Some ''ARCHIVELOG'' then
         then_e (index2 (log_check_rows ob) 0 2) (\<lambda>flashback_on.
           Inr (flashback_on = Some ''YES'' \<and> \<not> archivelog d \<and> \<not> flashback d))
       else Inr False)"

definition intended_state_msg :: "string \<Rightarrow> declared \<Rightarrow> string" where
  "intended_state_msg db_name d =
     ''Database '' @ db_name @ '' has been put in the intended state - Archivelog: '' @
     str_bool (archivelog d) @ '', Force Logging: '' @ str_bool (force_logging d) @
     '', Flashback: '' @ str_bool (flashback d)"

definition created_msg :: "ctx \<Rightarrow> string \<Rightarrow> declared \<Rightarrow> string" where
  "created_msg g db_name d =
     ''Database '' @ db_name @ '' successfully created created ('' @
     archcomp_of (archivelog d) @ '') '' @
     (if output' g = ''verbose'' then join '' ,'' (verboselist g) else [])"

definition already_msg :: "string \<Rightarrow> declared \<Rightarrow> string" where
  "already_msg db_name d =
     '' Database '' @ db_name @ '' already exists and is in the intended state'' @
     '' - Archivelog: '' @ str_bool (archivelog d) @ '', Force Logging: '' @
     str_bool (force_logging d) @ '', Flashback: '' @ str_bool (flashback d)"

text \<open>The reads that open the pass (lines 521 to 540), in the order of the source.\<close>

definition observe :: "ctx \<Rightarrow> world \<Rightarrow> (observed \<times> cell \<times> bool) run" where
  "observe g w =
     and_then (getconn g w) (\<lambda>cursor.
     and_then (execute_sql_get w propsql) (\<lambda>props.
     and_then (lift (unpack3 props)) (\<lambda>(def_tbs_type', def_tbs', def_temp_tbs').
     and_then (execute_sql_get w israc_sql) (\<lambda>israc_rows.
     and_then (lift (index2 israc_rows 0 1)) (\<lambda>instance_name.
     and_then (execute_sql_get w log_check_sql) (\<lambda>log_check_rows'.
     and_then (lift (index2 israc_rows 0 0)) (\<lambda>parallel'.
       ret (\<lparr>def_tbs_type = def_tbs_type', def_tbs = def_tbs', def_temp_tbs = def_temp_tbs',
              israc_rows = israc_rows, log_check_rows = log_check_rows'\<rparr>,
            instance_name, parallel' \<noteq> Some ''NO''))))))))"

text \<open>
  \<^verbatim>\<open>ensure_db_state\<close> always ends the pass: every path reaches \<^verbatim>\<open>exit_json\<close>,
  \<^verbatim>\<open>fail_json\<close> or an exception.
\<close>

definition ensure_db_state ::
  "ctx \<Rightarrow> world \<Rightarrow> string \<Rightarrow> string \<Rightarrow> string option \<Rightarrow> string option \<Rightarrow> declared \<Rightarrow> unit run" where
  "ensure_db_state g w oracle_home db_name db_unique_name sid d =
     and_then (observe g w) (\<lambda>(ob, instance_name, israc).
     and_then (lift (plan_changes d ob)) (\<lambda>(change_restart_sql, change_db_sql).
       if length change_db_sql > 0 \<or> length change_restart_sql > 0 then
         and_then (lift (flashback_first d ob)) (\<lambda>first.
         and_then
           (if first then
              and_then
                (if length change_db_sql > 0 then apply_norestart_changes g w change_db_sql
                 else ret ())
                (\<lambda>_. if length change_restart_sql > 0 then
                        apply_restart_changes g w oracle_home db_name db_unique_name sid
                          instance_name israc (archcomp_of (archivelog d)) change_restart_sql
                      else ret ())
            else
              and_then
                (if length change_restart_sql > 0 then
                   apply_restart_changes g w oracle_home db_name db_unique_name sid
                     instance_name israc (archcomp_of (archivelog d)) change_restart_sql
                 else ret ())
                (\<lambda>_. if length change_db_sql > 0 then apply_norestart_changes g w change_db_sql
                      else ret ()))
           (\<lambda>_. halt (ExitJson (intended_state_msg db_name d) True)))
       else if newdb g then halt (ExitJson (created_msg g db_name d) True)
       else halt (ExitJson (already_msg db_name d) False)))"

section \<open>Removal\<close>

text \<open>The identifier \<^verbatim>\<open>remove_db\<close> hands to \<^verbatim>\<open>dbca -deleteDatabase -sourceDB\<close>.\<close>

definition remove_db_target ::
  "ctx \<Rightarrow> string \<Rightarrow> string option \<Rightarrow> string option \<Rightarrow> row list \<Rightarrow> exit + string" where
  "remove_db_target g db_name sid db_unique_name israc_r =
     (if gimanaged g then
        (case db_unique_name of
           Some u \<Rightarrow> Inr u
         | None \<Rightarrow>
             (case sid of
                None \<Rightarrow> Inr db_name
              | Some s \<Rightarrow>
                  then_e (index2 israc_r 0 0) (\<lambda>parallel'.
                    if parallel' = Some ''YES'' then Inr db_name
                    else if parallel' = Some ''NO'' then Inr s
                    else Inr db_name)))
      else (case sid of Some s \<Rightarrow> Inr s | None \<Rightarrow> Inr db_name))"

definition remove_db ::
  "ctx \<Rightarrow> world \<Rightarrow> string \<Rightarrow> string \<Rightarrow> string option \<Rightarrow> string option \<Rightarrow> string option \<Rightarrow>
   bool run" where
  "remove_db g w oracle_home db_name sid db_unique_name sys_password =
     and_then (getconn g w) (\<lambda>cursor.
     and_then (execute_sql_get w israc_sql) (\<lambda>israc_r.
     and_then (lift (remove_db_target g db_name sid db_unique_name israc_r)) (\<lambda>target.
       let command = oracle_home @ ''/bin/dbca -deleteDatabase -silent -sourceDB '' @ target @
                     '' -sysDBAUserName sys -sysDBAPassword '' @ str_opt sys_password in
       and_then (module_run_command w command) (\<lambda>(rc, stdout, stderr).
         if rc \<noteq> 0 then
           halt (FailJson (''Removal of database '' @ db_name @ '' failed: '' @ stdout)
                   (Some False))
         else if output' g = ''short'' then ret True
         else halt (ExitJson (''STDOUT: '' @ stdout @ '',  COMMAND: '' @ command) True)))))"

text \<open>
  The branch \<^verbatim>\<open>elif state == 'absent'\<close> of \<^verbatim>\<open>main\<close> (lines 952 to 961). \<^verbatim>\<open>msg\<close> is
  still the list \<^verbatim>\<open>['']\<close> where \<^verbatim>\<open>fail_json\<close> would report it; \<open>initial_msg\<close> is that
  list as text.
\<close>

definition initial_msg :: string where
  "initial_msg = [CHR ''['', CHR 0x27, CHR 0x27, CHR '']'']"

definition main_absent ::
  "ctx \<Rightarrow> world \<Rightarrow> string \<Rightarrow> string \<Rightarrow> string option \<Rightarrow> string option \<Rightarrow> string option \<Rightarrow>
   unit run" where
  "main_absent g w oracle_home db_name sid db_unique_name sys_password =
     and_then (check_db_exists g w oracle_home db_name sid db_unique_name) (\<lambda>found.
       if is_true found then
         and_then (remove_db g w oracle_home db_name sid db_unique_name sys_password)
           (\<lambda>removed.
             if removed then
               halt (ExitJson (''Successfully removed database '' @ db_name) True)
             else halt (FailJson initial_msg (Some False)))
       else halt (ExitJson (''Database '' @ db_name @ '' doesn't exist'') False))"

section \<open>Requests: what a pass asks of the host\<close>

text \<open>The request of an event is the event without the host's answer.\<close>

datatype request =
    ReqCommand string
  | ReqSqlplus string string string
  | ReqConnect string
  | ReqGet string
  | ReqSql string
  | ReqSleep nat

fun request_of :: "event \<Rightarrow> request" where
  "request_of (RunCommand command r) = ReqCommand command"
| "request_of (Sqlplus oracle_sid sqlplus_bin script r) = ReqSqlplus oracle_sid sqlplus_bin script"
| "request_of (Connect descriptor r) = ReqConnect descriptor"
| "request_of (SqlGet sql r) = ReqGet sql"
| "request_of (Sql sql r) = ReqSql sql"
| "request_of (Sleep n) = ReqSleep n"

text \<open>
  The requests of the lifecycle steps, by control mode: under cluster-managed mode a
  \<^verbatim>\<open>srvctl\<close> command on the unique name (else the name), otherwise a \<^verbatim>\<open>sqlplus\<close>
  script with \<^verbatim>\<open>ORACLE_SID\<close> bound to the sid (else the name).
\<close>

definition target_name :: "string \<Rightarrow> string option \<Rightarrow> string" where
  "target_name db_name db_unique_name = (case db_unique_name of Some u \<Rightarrow> u | None \<Rightarrow> db_name)"

definition oracle_sid_of :: "string \<Rightarrow> string option \<Rightarrow> string" where
  "oracle_sid_of db_name sid = (case sid of Some s \<Rightarrow> s | None \<Rightarrow> db_name)"

definition stop_request ::
  "ctx \<Rightarrow> string \<Rightarrow> string \<Rightarrow> string option \<Rightarrow> string option \<Rightarrow> request" where
  "stop_request g oracle_home db_name db_unique_name sid =
     (if gimanaged g then
        ReqCommand (oracle_home @ ''/bin/srvctl stop database -d '' @
          target_name db_name db_unique_name @ '' -o immediate'')
      else ReqSqlplus (oracle_sid_of db_name sid) (oracle_home @ ''/bin/sqlplus'') shutdown_sql)"

definition start_request ::
  "ctx \<Rightarrow> string \<Rightarrow> string \<Rightarrow> string option \<Rightarrow> string option \<Rightarrow> request" where
  "start_request g oracle_home db_name db_unique_name sid =
     (if gimanaged g then
        ReqCommand (oracle_home @ ''/bin/srvctl start database -d '' @
          target_name db_name db_unique_name)
      else ReqSqlplus (oracle_sid_of db_name sid) (oracle_home @ ''/bin/sqlplus'') startup_sql)"

definition mount_request ::
  "ctx \<Rightarrow> string \<Rightarrow> string \<Rightarrow> string option \<Rightarrow> string option \<Rightarrow> cell \<Rightarrow> bool \<Rightarrow> request" where
  "mount_request g oracle_home db_name db_unique_name sid instance_name israc =
     (if gimanaged g then
        (if israc then
           ReqCommand (oracle_home @ ''/bin/srvctl start instance  -d '' @
             target_name db_name db_unique_name @ '' -i '' @ str_opt instance_name @
             '' -o mount '')
         else
           ReqCommand (oracle_home @ ''/bin/srvctl start database -d '' @
             target_name db_name db_unique_name @ ''  -o mount ''))
      else
        ReqSqlplus (oracle_sid_of db_name sid) (oracle_home @ ''/bin/sqlplus'') startup_mount_sql)"

definition connect_request :: "ctx \<Rightarrow> world \<Rightarrow> request" where
  "connect_request g w =
     (if truthy (user g) \<and> truthy (password g) then
        ReqConnect (makedsn w (uname_nodename w) (port g) (service_name g))
      else ReqConnect (''/@'' @ service_name g))"

text \<open>
  The restart batch as a sequence of requests: stop, start to mount, the settling delay
  of ten seconds, a new connection, then for each statement the statement, a stop and a
  start. The immediate batch: a new connection, then the statements.
\<close>

definition restart_requests ::
  "ctx \<Rightarrow> world \<Rightarrow> string \<Rightarrow> string \<Rightarrow> string option \<Rightarrow> string option \<Rightarrow> cell \<Rightarrow> bool \<Rightarrow>
   string list \<Rightarrow> request list" where
  "restart_requests g w oracle_home db_name db_unique_name sid instance_name israc sqls =
     [stop_request g oracle_home db_name db_unique_name sid,
      mount_request g oracle_home db_name db_unique_name sid instance_name israc,
      ReqSleep 10,
      connect_request g w] @
     concat (map (\<lambda>sql. [ReqSql sql,
                          stop_request g oracle_home db_name db_unique_name sid,
                          start_request g oracle_home db_name db_unique_name sid]) sqls)"

definition norestart_requests :: "ctx \<Rightarrow> world \<Rightarrow> string list \<Rightarrow> request list" where
  "norestart_requests g w sqls = connect_request g w # map ReqSql sqls"

definition observe_requests :: "ctx \<Rightarrow> world \<Rightarrow> request list" where
  "observe_requests g w =
     [connect_request g w, ReqGet propsql, ReqGet israc_sql, ReqGet log_check_sql]"

fun is_get :: "request \<Rightarrow> bool" where
  "is_get (ReqGet sql) = True"
| "is_get r = False"

section \<open>Concrete hosts\<close>

text \<open>
  \<^verbatim>\<open>re.search\<close> on the patterns the locators build from a name without regular
  expression operators: literal text, after a \<^verbatim>\<open>^\<close> only at the start of the line.
\<close>

definition re_search_literal :: "string \<Rightarrow> string \<Rightarrow> bool" where
  "re_search_literal p s =
     (case p of
        [] \<Rightarrow> True
      | c # q \<Rightarrow> if c = CHR ''^'' then startswith s q else py_in p s)"

text \<open>
  A host whose answers do not depend on what happened before: \<open>commands\<close> answers
  \<^verbatim>\<open>run_command\<close>, \<open>queries\<close> answers the cursor's queries; every connection, statement
  and \<^verbatim>\<open>sqlplus\<close> script succeeds.
\<close>

definition host ::
  "string list option \<Rightarrow> (string \<Rightarrow> int \<times> string \<times> string) \<Rightarrow> (string \<Rightarrow> string + row list) \<Rightarrow>
   world" where
  "host lines commands queries =
     \<lparr>run_command = (\<lambda>h. commands),
      popen_sqlplus = (\<lambda>h oracle_sid sqlplus_bin script. (0, [], [])),
      cx_connect = (\<lambda>h descriptor. None),
      cursor_fetchall = (\<lambda>h. queries),
      cursor_execute = (\<lambda>h sql. None),
      oratab = lines,
      re_search = re_search_literal,
      uname_nodename = ''dbhost'',
      makedsn = (\<lambda>host' port' service. host' @ '':'' @ port' @ ''/'' @ service)\<rparr>"

definition all_ok :: "string \<Rightarrow> int \<times> string \<times> string" where
  "all_ok command = (0, [], [])"

definition ctx0 :: "bool \<Rightarrow> bool \<Rightarrow> ctx" where
  "ctx0 gi new =
     \<lparr>gimanaged = gi, user = Some ''sys'', password = Some ''secret'',
      service_name = ''orcl'', port = ''1521'', newdb = new, output' = ''short'',
      verboselist = []\<rparr>"

text \<open>
  A database as the three queries see it: \<open>props\<close> are the rows of \<open>propsql\<close>,
  \<open>par\<close> and \<open>instance\<close> the first two columns of \<^verbatim>\<open>v$instance\<close>, and
  \<open>log_mode\<close>, \<open>force\<close>, \<open>fb\<close> the three columns of \<^verbatim>\<open>v$database\<close>.
\<close>

definition db_queries ::
  "string list \<Rightarrow> string \<Rightarrow> string \<Rightarrow> string \<Rightarrow> string \<Rightarrow> string \<Rightarrow> string \<Rightarrow> string + row list" where
  "db_queries props par instance log_mode force fb sql =
     (if sql = propsql then Inr (map (\<lambda>v. [Some v]) props)
      else if sql = israc_sql then Inr [[Some par, Some instance, Some ''dbhost'']]
      else if sql = log_check_sql then Inr [[Some log_mode, Some force, Some fb]]
      else Inl ''ORA-00942: table or view does not exist'')"

text \<open>
  A cluster registry that rejects the request with \<^verbatim>\<open>PRCD-1229\<close>, the answer
  \<^verbatim>\<open>oracle_db.check_db_exists\<close> reads as "created, but with a different ORACLE\_HOME".
\<close>

definition prcd_1229 :: "string \<Rightarrow> int \<times> string \<times> string" where
  "prcd_1229 command =
     (1, ''PRCD-1229 : An attempt to access configuration of database orcl was rejected because its version 11.2.0.4.0 differs from the program version 12.1.0.2.0.'', [])"

definition no_rows :: "string \<Rightarrow> string + row list" where
  "no_rows sql = Inr []"

text \<open>
  Declared properties with the default tablespace type and no tablespace names:
  \<open>declare_logging archivelog force_logging flashback\<close>.
\<close>

definition declare_logging :: "bool \<Rightarrow> bool \<Rightarrow> bool \<Rightarrow> declared" where
  "declare_logging a fl fb =
     \<lparr>archivelog = a, force_logging = fl, flashback = fb,
      default_tablespace_type = ''smallfile'', default_tablespace = None,
      default_temp_tablespace = None\<rparr>"

text \<open>What \<open>observe\<close> reads from \<open>db_queries [a, b, c] par inst log_mode force fb\<close>.\<close>

definition observed_of ::
  "string \<Rightarrow> string \<Rightarrow> string \<Rightarrow> string \<Rightarrow> string \<Rightarrow> string \<Rightarrow> string \<Rightarrow> string \<Rightarrow> observed" where
  "observed_of a b c par inst log_mode force fb =
     \<lparr>def_tbs_type = [Some a], def_tbs = [Some b], def_temp_tbs = [Some c],
      israc_rows = [[Some par, Some inst, Some ''dbhost'']],
      log_check_rows = [[Some log_mode, Some force, Some fb]]\<rparr>"

section \<open>Statements about passes\<close>

text \<open>How a pass can end.\<close>

fun is_exit_json :: "exit \<Rightarrow> bool" where
  "is_exit_json (ExitJson msg changed) = True"
| "is_exit_json e = False"

text \<open>
  \<open>steps m rs Q\<close>: from any history, \<open>m\<close> only appends events; their requests are a
  prefix of \<open>rs\<close>; when \<open>m\<close> returns they are all of \<open>rs\<close> and the value
  satisfies \<open>Q\<close>; and \<open>m\<close> never ends the pass with \<^verbatim>\<open>exit_json\<close>.
\<close>

definition steps :: "'a run \<Rightarrow> request list \<Rightarrow> ('a \<Rightarrow> bool) \<Rightarrow> bool" where
  "steps m rs Q =
     (\<forall>h. \<exists>es. snd (m h) = h @ es \<and> prefix (map request_of es) rs \<and>
               (case fst (m h) of
                  Inr x \<Rightarrow> map request_of es = rs \<and> Q x
                | Inl e \<Rightarrow> \<not> is_exit_json e))"

definition anything :: "'a \<Rightarrow> bool" where
  "anything x = True"

text \<open>
  The requests of the two batches of a pass, in the order the pass applies them:
  \<open>first\<close> is the outcome of the test of line 586.
\<close>

definition batch_requests ::
  "ctx \<Rightarrow> world \<Rightarrow> string \<Rightarrow> string \<Rightarrow> string option \<Rightarrow> string option \<Rightarrow> cell \<Rightarrow> bool \<Rightarrow>
   bool \<Rightarrow> string list \<Rightarrow> string list \<Rightarrow> request list" where
  "batch_requests g w oracle_home db_name db_unique_name sid instance_name israc first
     change_restart_sql change_db_sql =
     (let immediate = (if change_db_sql = [] then []
                       else norestart_requests g w change_db_sql);
          restart = (if change_restart_sql = [] then []
                     else restart_requests g w oracle_home db_name db_unique_name sid
                            instance_name israc change_restart_sql)
      in if first then immediate @ restart else restart @ immediate)"

text \<open>
  The identifier of a removal in words: under cluster-managed mode the unique name when
  one is given, else the sid when one is given and the topology is single-instance
  (\<^verbatim>\<open>parallel\<close> is \<^verbatim>\<open>NO\<close>), else the name; under standalone mode the sid when one is
  given, else the name.
\<close>

definition removal_identifier ::
  "bool \<Rightarrow> string \<Rightarrow> string option \<Rightarrow> string option \<Rightarrow> cell \<Rightarrow> string" where
  "removal_identifier cluster_managed db_name sid db_unique_name par =
     (if cluster_managed then
        (case db_unique_name of
           Some u \<Rightarrow> u
         | None \<Rightarrow>
             (case sid of
                Some s \<Rightarrow> if par = Some ''NO'' then s else db_name
              | None \<Rightarrow> db_name))
      else (case sid of Some s \<Rightarrow> s | None \<Rightarrow> db_name))"

definition delete_command :: "string \<Rightarrow> string \<Rightarrow> string option \<Rightarrow> string" where
  "delete_command oracle_home identifier sys_password =
     oracle_home @ ''/bin/dbca -deleteDatabase -silent -sourceDB '' @ identifier @
     '' -sysDBAUserName sys -sysDBAPassword '' @ str_opt sys_password"

section \<open>The answer to the tablespace query\<close>

text \<open>
  What the database answers to \<open>propsql\<close>, read off the text of the query: the values of
  the three properties, passed through \<^verbatim>\<open>lower\<close>, one per row, in ascending order of
  that value (\<^verbatim>\<open>order by 1\<close>; byte order). Which property a row came from is not part
  of the answer.
\<close>

record database_properties =
  DEFAULT_TBS_TYPE :: string
  DEFAULT_PERMANENT_TABLESPACE :: string
  DEFAULT_TEMP_TABLESPACE :: string

definition lower_char :: "char \<Rightarrow> char" where
  "lower_char c =
     (case map_of (zip ''ABCDEFGHIJKLMNOPQRSTUVWXYZ'' ''abcdefghijklmnopqrstuvwxyz'') c of
        Some l \<Rightarrow> l
      | None \<Rightarrow> c)"

definition lower :: "string \<Rightarrow> string" where
  "lower s = map lower_char s"

fun str_le :: "string \<Rightarrow> string \<Rightarrow> bool" where
  "str_le [] t = True"
| "str_le (a # s) [] = False"
| "str_le (a # s) (b # t) =
     ((of_char a :: nat) < of_char b \<or> (a = b \<and> str_le s t))"

fun insert_sorted :: "string \<Rightarrow> string list \<Rightarrow> string list" where
  "insert_sorted x [] = [x]"
| "insert_sorted x (y # ys) = (if str_le x y then x # y # ys else y # insert_sorted x ys)"

definition order_by_1 :: "string list \<Rightarrow> string list" where
  "order_by_1 vs = foldr insert_sorted vs []"

definition propsql_answer :: "database_properties \<Rightarrow> string list" where
  "propsql_answer p =
     order_by_1 (map lower [DEFAULT_TBS_TYPE p, DEFAULT_PERMANENT_TABLESPACE p,
                            DEFAULT_TEMP_TABLESPACE p])"

section \<open>Declared state and live state\<close>





section \<open>Evaluation rules\<close>

lemmas host_eval = host_def ctx0_def all_ok_def no_rows_def re_search_literal_def

lemmas run_eval = and_then_def ret_def halt_def lift_def module_run_command_def Let_def

section \<open>What each operation asks of the host\<close>

lemma steps_ret: "Q x \<Longrightarrow> steps (ret x) [] Q"
  by (simp add: steps_def ret_def)

lemma steps_halt: "\<not> is_exit_json e \<Longrightarrow> steps (halt e) rs Q"
  by (simp add: steps_def halt_def)

lemma steps_lift:
  "(\<And>e. r = Inl e \<Longrightarrow> \<not> is_exit_json e) \<Longrightarrow> (\<And>x. r = Inr x \<Longrightarrow> Q x) \<Longrightarrow> steps (lift r) [] Q"
  by (cases r) (simp_all add: steps_def lift_def)

lemma steps_weaken: "steps m rs Q \<Longrightarrow> (\<And>x. Q x \<Longrightarrow> R x) \<Longrightarrow> steps m rs R"
  unfolding steps_def by (metis (mono_tags, lifting) sum.case_eq_if)

lemma steps_bind:
  assumes m: "steps m rs1 Q" and k: "\<And>x. Q x \<Longrightarrow> steps (k x) rs2 R"
  shows "steps (and_then m k) (rs1 @ rs2) R"
  unfolding steps_def
proof
  fix h
  from m obtain es1 where e1: "snd (m h) = h @ es1" "prefix (map request_of es1) rs1"
    "case fst (m h) of Inr x \<Rightarrow> map request_of es1 = rs1 \<and> Q x | Inl e \<Rightarrow> \<not> is_exit_json e"
    unfolding steps_def by blast
  show "\<exists>es. snd (and_then m k h) = h @ es \<and> prefix (map request_of es) (rs1 @ rs2) \<and>
          (case fst (and_then m k h) of Inr x \<Rightarrow> map request_of es = rs1 @ rs2 \<and> R x
           | Inl e \<Rightarrow> \<not> is_exit_json e)"
  proof (cases "fst (m h)")
    case (Inl e)
    then have "m h = (Inl e, h @ es1)" using e1(1) by (metis prod.collapse)
    then show ?thesis using e1 Inl by (auto simp: and_then_def intro: prefix_prefix)
  next
    case (Inr x)
    then have mh: "m h = (Inr x, h @ es1)" using e1(1) by (metis prod.collapse)
    have full: "map request_of es1 = rs1" and qx: "Q x" using e1(3) Inr by simp_all
    from k[OF qx] obtain es2 where e2: "snd (k x (h @ es1)) = (h @ es1) @ es2"
      "prefix (map request_of es2) rs2"
      "case fst (k x (h @ es1)) of Inr y \<Rightarrow> map request_of es2 = rs2 \<and> R y
       | Inl e \<Rightarrow> \<not> is_exit_json e"
      unfolding steps_def by blast
    show ?thesis
      using mh e2 full by (intro exI[of _ "es1 @ es2"]) (auto simp: and_then_def split: sum.splits)
  qed
qed

lemma steps_bind_nil:
  "steps m rs Q \<Longrightarrow> (\<And>x. Q x \<Longrightarrow> steps (k x) [] R) \<Longrightarrow> steps (and_then m k) rs R"
  using steps_bind[of m rs Q k "[]" R] by simp

lemma steps_run_command: "steps (module_run_command w c) [ReqCommand c] anything"
  by (simp add: steps_def module_run_command_def Let_def anything_def)

lemma steps_sqlplus: "steps (sqlplus_nolog w s b script) [ReqSqlplus s b script] anything"
  by (simp add: steps_def sqlplus_nolog_def Let_def anything_def)

lemma steps_sleep: "steps (time_sleep n) [ReqSleep n] anything"
  by (simp add: steps_def time_sleep_def anything_def)

lemma steps_getconn: "steps (getconn g w) [connect_request g w] anything"
  by (auto simp: steps_def getconn_def connect_request_def Let_def anything_def
      split: option.splits)

lemma steps_execute_sql: "steps (execute_sql w sql) [ReqSql sql] anything"
  by (auto simp: steps_def execute_sql_def Let_def anything_def split: option.splits)

lemma steps_execute_sql_get: "steps (execute_sql_get w sql) [ReqGet sql] anything"
  by (auto simp: steps_def execute_sql_get_def Let_def anything_def split: sum.splits)

lemma steps_stop_db:
  "steps (stop_db g w oracle_home db_name db_unique_name sid)
     [stop_request g oracle_home db_name db_unique_name sid] (\<lambda>stopped. stopped)"
  unfolding stop_db_def stop_request_def target_name_def oracle_sid_of_def Let_def
  by (auto intro!: steps_bind_nil steps_run_command steps_sqlplus steps_halt steps_ret
      split: prod.splits)

lemma steps_start_db:
  "steps (start_db g w oracle_home db_name db_unique_name sid)
     [start_request g oracle_home db_name db_unique_name sid] (\<lambda>started. started)"
  unfolding start_db_def start_request_def target_name_def oracle_sid_of_def Let_def
  by (auto intro!: steps_bind_nil steps_run_command steps_sqlplus steps_halt steps_ret
      split: prod.splits)

lemma steps_start_instance:
  "steps (start_instance g w oracle_home db_name db_unique_name sid (Some ''mount'')
            instance_name israc)
     [mount_request g oracle_home db_name db_unique_name sid instance_name israc]
     (\<lambda>mounted. mounted)"
  unfolding start_instance_def mount_request_def target_name_def oracle_sid_of_def Let_def
  by (auto intro!: steps_bind_nil steps_run_command steps_sqlplus steps_halt steps_ret
      split: prod.splits)

lemma steps_restart_loop:
  "steps (restart_loop g w oracle_home db_name db_unique_name sid sqls)
     (concat (map (\<lambda>sql. [ReqSql sql,
                          stop_request g oracle_home db_name db_unique_name sid,
                          start_request g oracle_home db_name db_unique_name sid]) sqls))
     anything"
proof (induction sqls)
  case Nil
  show ?case by (simp add: steps_ret anything_def)
next
  case (Cons sql rest)
  let ?tail = "concat (map (\<lambda>sql. [ReqSql sql,
                          stop_request g oracle_home db_name db_unique_name sid,
                          start_request g oracle_home db_name db_unique_name sid]) rest)"
  have started:
    "steps (and_then (start_db g w oracle_home db_name db_unique_name sid)
              (\<lambda>started. restart_loop g w oracle_home db_name db_unique_name sid rest))
       ([start_request g oracle_home db_name db_unique_name sid] @ ?tail) anything"
    by (rule steps_bind [OF steps_start_db Cons.IH])
  have stopped:
    "steps (and_then (stop_db g w oracle_home db_name db_unique_name sid) (\<lambda>stopped.
              if stopped then
                and_then (start_db g w oracle_home db_name db_unique_name sid)
                  (\<lambda>started. restart_loop g w oracle_home db_name db_unique_name sid rest)
              else restart_loop g w oracle_home db_name db_unique_name sid rest))
       ([stop_request g oracle_home db_name db_unique_name sid] @
        [start_request g oracle_home db_name db_unique_name sid] @ ?tail) anything"
    by (rule steps_bind [OF steps_stop_db]) (use started in simp)
  have "steps (restart_loop g w oracle_home db_name db_unique_name sid (sql # rest))
          ([ReqSql sql] @ [stop_request g oracle_home db_name db_unique_name sid] @
           [start_request g oracle_home db_name db_unique_name sid] @ ?tail) anything"
    unfolding restart_loop.simps by (rule steps_bind [OF steps_execute_sql stopped])
  then show ?case by simp
qed

lemma steps_apply_restart_changes:
  "steps (apply_restart_changes g w oracle_home db_name db_unique_name sid instance_name israc
            archcomp sqls)
     (restart_requests g w oracle_home db_name db_unique_name sid instance_name israc sqls)
     anything"
proof -
  let ?loop = "concat (map (\<lambda>sql. [ReqSql sql,
                          stop_request g oracle_home db_name db_unique_name sid,
                          start_request g oracle_home db_name db_unique_name sid]) sqls)"
  have connected:
    "steps (and_then (getconn g w) (\<lambda>cursor.
              restart_loop g w oracle_home db_name db_unique_name sid sqls))
       ([connect_request g w] @ ?loop) anything"
    by (rule steps_bind [OF steps_getconn steps_restart_loop])
  have slept:
    "steps (and_then (time_sleep 10) (\<lambda>_. and_then (getconn g w) (\<lambda>cursor.
              restart_loop g w oracle_home db_name db_unique_name sid sqls)))
       ([ReqSleep 10] @ [connect_request g w] @ ?loop) anything"
    by (rule steps_bind [OF steps_sleep connected])
  have mounted:
    "steps (and_then (start_instance g w oracle_home db_name db_unique_name sid
                        (Some ''mount'') instance_name israc)
              (\<lambda>mounted. if mounted then
                  and_then (time_sleep 10) (\<lambda>_. and_then (getconn g w) (\<lambda>cursor.
                    restart_loop g w oracle_home db_name db_unique_name sid sqls))
                else ret ()))
       ([mount_request g oracle_home db_name db_unique_name sid instance_name israc] @
        [ReqSleep 10] @ [connect_request g w] @ ?loop) anything"
    by (rule steps_bind [OF steps_start_instance]) (use slept in simp)
  have "steps (apply_restart_changes g w oracle_home db_name db_unique_name sid instance_name
                 israc archcomp sqls)
          ([stop_request g oracle_home db_name db_unique_name sid] @
           [mount_request g oracle_home db_name db_unique_name sid instance_name israc] @
           [ReqSleep 10] @ [connect_request g w] @ ?loop) anything"
    unfolding apply_restart_changes_def
    by (rule steps_bind [OF steps_stop_db]) (use mounted in simp)
  then show ?thesis by (simp add: restart_requests_def)
qed

lemma steps_norestart_loop: "steps (norestart_loop w sqls) (map ReqSql sqls) anything"
proof (induction sqls)
  case Nil
  show ?case by (simp add: steps_ret anything_def)
next
  case (Cons sql rest)
  have "steps (norestart_loop w (sql # rest)) ([ReqSql sql] @ map ReqSql rest) anything"
    unfolding norestart_loop.simps by (rule steps_bind [OF steps_execute_sql Cons.IH])
  then show ?case by simp
qed

lemma steps_apply_norestart_changes:
  "steps (apply_norestart_changes g w sqls) (norestart_requests g w sqls) anything"
proof -
  have "steps (apply_norestart_changes g w sqls) ([connect_request g w] @ map ReqSql sqls)
          anything"
    unfolding apply_norestart_changes_def
    by (rule steps_bind [OF steps_getconn steps_norestart_loop])
  then show ?thesis by (simp add: norestart_requests_def)
qed

section \<open>The requests of a pass\<close>

lemma observe_requests_issued:
  assumes "observe g w h = (Inr x, h1)"
  shows "\<exists>es. h1 = h @ es \<and> map request_of es = observe_requests g w"
  using assms
  by (auto simp: observe_def and_then_def getconn_def execute_sql_get_def lift_def ret_def
      Let_def observe_requests_def connect_request_def
      split: if_splits option.splits sum.splits prod.splits)

lemma steps_then_exit:
  assumes m: "steps m rs Q"
  shows "\<exists>es. snd (and_then m (\<lambda>_. halt e) h) = h @ es \<and> prefix (map request_of es) rs \<and>
           (\<exists>e'. fst (and_then m (\<lambda>_. halt e) h) = Inl e' \<and>
                 (is_exit_json e' \<longrightarrow> e' = e \<and> map request_of es = rs))"
proof -
  from m obtain es where es: "snd (m h) = h @ es" "prefix (map request_of es) rs"
    "case fst (m h) of Inr x \<Rightarrow> map request_of es = rs \<and> Q x | Inl e \<Rightarrow> \<not> is_exit_json e"
    unfolding steps_def by blast
  show ?thesis
  proof (cases "fst (m h)")
    case (Inl e0)
    then have "m h = (Inl e0, h @ es)" using es(1) by (metis prod.collapse)
    then show ?thesis using es Inl by (auto simp: and_then_def)
  next
    case (Inr x)
    then have "m h = (Inr x, h @ es)" using es(1) by (metis prod.collapse)
    then show ?thesis using es Inr by (auto simp: and_then_def halt_def)
  qed
qed

lemma steps_batches:
  "steps
     (if first then
        and_then
          (if length cds > 0 then apply_norestart_changes g w cds else ret ())
          (\<lambda>_. if length crs > 0 then
                  apply_restart_changes g w oracle_home db_name db_unique_name sid
                    instance_name israc archcomp crs
                else ret ())
      else
        and_then
          (if length crs > 0 then
             apply_restart_changes g w oracle_home db_name db_unique_name sid
               instance_name israc archcomp crs
           else ret ())
          (\<lambda>_. if length cds > 0 then apply_norestart_changes g w cds else ret ()))
     (batch_requests g w oracle_home db_name db_unique_name sid instance_name israc first
        crs cds)
     anything"
proof -
  let ?imm = "if cds = [] then [] else norestart_requests g w cds"
  let ?rst = "if crs = [] then []
              else restart_requests g w oracle_home db_name db_unique_name sid
                     instance_name israc crs"
  have imm: "steps (if length cds > 0 then apply_norestart_changes g w cds else ret ())
               ?imm anything"
    by (simp add: steps_apply_norestart_changes steps_ret anything_def)
  have rst: "steps (if length crs > 0 then
                      apply_restart_changes g w oracle_home db_name db_unique_name sid
                        instance_name israc archcomp crs
                    else ret ()) ?rst anything"
    by (simp add: steps_apply_restart_changes steps_ret anything_def)
  show ?thesis
  proof (cases first)
    case True
    then show ?thesis
      using steps_bind [OF imm rst] by (simp add: batch_requests_def)
  next
    case False
    then show ?thesis
      using steps_bind [OF rst imm] by (simp add: batch_requests_def)
  qed
qed

lemma ensure_db_state_requests:
  assumes obs: "observe g w h = (Inr (ob, instance_name, israc), h1)"
      and plan: "plan_changes d ob = Inr (crs, cds)"
      and first: "flashback_first d ob = Inr first"
  shows "\<exists>es. snd (ensure_db_state g w oracle_home db_name db_unique_name sid d h) = h1 @ es \<and>
           prefix (map request_of es)
             (batch_requests g w oracle_home db_name db_unique_name sid instance_name israc
                first crs cds) \<and>
           (\<exists>e. fst (ensure_db_state g w oracle_home db_name db_unique_name sid d h) = Inl e \<and>
                (is_exit_json e \<longrightarrow>
                   e = (if cds \<noteq> [] \<or> crs \<noteq> [] then ExitJson (intended_state_msg db_name d) True
                        else if newdb g then ExitJson (created_msg g db_name d) True
                        else ExitJson (already_msg db_name d) False) \<and>
                   map request_of es =
                     batch_requests g w oracle_home db_name db_unique_name sid instance_name
                       israc first crs cds))"
proof (cases "cds \<noteq> [] \<or> crs \<noteq> []")
  case True
  let ?batches = "if first then
        and_then
          (if length cds > 0 then apply_norestart_changes g w cds else ret ())
          (\<lambda>_. if length crs > 0 then
                  apply_restart_changes g w oracle_home db_name db_unique_name sid
                    instance_name israc (archcomp_of (archivelog d)) crs
                else ret ())
      else
        and_then
          (if length crs > 0 then
             apply_restart_changes g w oracle_home db_name db_unique_name sid
               instance_name israc (archcomp_of (archivelog d)) crs
           else ret ())
          (\<lambda>_. if length cds > 0 then apply_norestart_changes g w cds else ret ())"
  have eq: "ensure_db_state g w oracle_home db_name db_unique_name sid d h =
              and_then ?batches (\<lambda>_. halt (ExitJson (intended_state_msg db_name d) True)) h1"
    using obs plan first True
    by (simp add: ensure_db_state_def and_then_def lift_def)
  show ?thesis
    using steps_then_exit [OF steps_batches, of first cds g w crs oracle_home db_name
        db_unique_name sid instance_name israc "archcomp_of (archivelog d)"
        "ExitJson (intended_state_msg db_name d) True" h1] True
    unfolding eq by auto
next
  case False
  then have "ensure_db_state g w oracle_home db_name db_unique_name sid d h =
      (Inl (if newdb g then ExitJson (created_msg g db_name d) True
            else ExitJson (already_msg db_name d) False), h1)"
    using obs plan first
    by (simp add: ensure_db_state_def and_then_def lift_def halt_def)
  then show ?thesis using False by (simp add: batch_requests_def)
qed

section \<open>The concrete hosts, evaluated\<close>

lemma sql_distinct:
  "israc_sql \<noteq> propsql" "log_check_sql \<noteq> propsql" "log_check_sql \<noteq> israc_sql"
  by (simp_all add: israc_sql_def propsql_def log_check_sql_def)

lemma db_queries_simps:
  "db_queries props par instance log_mode force fb propsql = Inr (map (\<lambda>v. [Some v]) props)"
  "db_queries props par instance log_mode force fb israc_sql =
     Inr [[Some par, Some instance, Some ''dbhost'']]"
  "db_queries props par instance log_mode force fb log_check_sql =
     Inr [[Some log_mode, Some force, Some fb]]"
  by (simp_all add: db_queries_def sql_distinct)

lemma getconn_host:
  "getconn (ctx0 gi new) (host lines commands queries) h =
     (Inr (), h @ [Connect ''dbhost:1521/orcl'' None])"
  by (simp add: getconn_def ctx0_def host_def truthy_def)

lemma execute_sql_get_host:
  "execute_sql_get (host lines commands queries) sql h =
     (case queries sql of
        Inl m \<Rightarrow> (Inl (FailJson (''Something went wrong while executing sql_get - '' @ m @
                     '' sql: '' @ sql) (Some False)), h @ [SqlGet sql (Inl m)])
      | Inr rows \<Rightarrow> (Inr rows, h @ [SqlGet sql (Inr rows)]))"
  by (simp add: execute_sql_get_def host_def Let_def split: sum.splits)

lemma execute_sql_host:
  "execute_sql (host lines commands queries) sql h = (Inr True, h @ [Sql sql None])"
  by (simp add: execute_sql_def host_def)

lemma observe_host:
  "observe (ctx0 gi new) (host lines commands (db_queries [a, b, c] par inst lm fo fb)) h =
     (Inr (\<lparr>def_tbs_type = [Some a], def_tbs = [Some b], def_temp_tbs = [Some c],
            israc_rows = [[Some par, Some inst, Some ''dbhost'']],
            log_check_rows = [[Some lm, Some fo, Some fb]]\<rparr>,
           Some inst, par \<noteq> ''NO''),
      h @ [Connect ''dbhost:1521/orcl'' None,
           SqlGet propsql (Inr [[Some a], [Some b], [Some c]]),
           SqlGet israc_sql (Inr [[Some par, Some inst, Some ''dbhost'']]),
           SqlGet log_check_sql (Inr [[Some lm, Some fo, Some fb]])])"
  by (simp add: observe_def and_then_def getconn_host execute_sql_get_host db_queries_simps
      lift_def unpack3_def index2_def index_def then_e_def ret_def)

section \<open>Facts about the plan\<close>

lemma plan_restart:
  assumes "plan_changes d ob = Inr (crs, cds)"
      and "index2 (log_check_rows ob) 0 0 = Inr log_mode"
  shows "crs = (if log_mode \<noteq> Some (archcomp_of (archivelog d))
                then [archsql_of (archivelog d)] else [])"
  using assms
  by (auto simp: plan_changes_def then_e_def split: sum.splits option.splits if_splits)

lemma plan_flashback:
  assumes "plan_changes d ob = Inr (crs, cds)"
      and "index2 (log_check_rows ob) 0 2 = Inr flashback_on"
      and "flashback_on \<noteq> Some (fbcomp_of (flashback d))"
  shows "fbsql_of (flashback d) \<in> set cds"
  using assms
  by (auto simp: plan_changes_def then_e_def split: sum.splits option.splits if_splits)

lemma flashback_first_value:
  assumes "index2 (log_check_rows ob) 0 0 = Inr log_mode"
      and "index2 (log_check_rows ob) 0 2 = Inr flashback_on"
  shows "flashback_first d ob =
           Inr (log_mode = Some ''ARCHIVELOG'' \<and> flashback_on = Some ''YES'' \<and>
                \<not> archivelog d \<and> \<not> flashback d)"
  using assms by (simp add: flashback_first_def then_e_def)

lemma plan_gives_cells:
  assumes "plan_changes d ob = Inr p"
  shows "\<exists>log_mode flashback_on. index2 (log_check_rows ob) 0 0 = Inr log_mode \<and>
           index2 (log_check_rows ob) 0 2 = Inr flashback_on"
  using assms
  by (auto simp: plan_changes_def then_e_def split: sum.splits option.splits if_splits)

lemma plan_failure_not_exit_json: "plan_changes d ob = Inl e \<Longrightarrow> \<not> is_exit_json e"
  by (auto simp: plan_changes_def then_e_def index2_def index_def
      split: sum.splits option.splits if_splits)

lemma filter_prefix_nil: "prefix xs ys \<Longrightarrow> filter P ys = [] \<Longrightarrow> filter P xs = []"
  by (auto simp: prefix_def)

lemma no_get_in_batches:
  "filter is_get (batch_requests g w oracle_home db_name db_unique_name sid instance_name
     israc first crs cds) = []"
proof -
  have connect: "\<not> is_get (connect_request g w)"
    by (simp add: connect_request_def)
  have stop: "\<not> is_get (stop_request g oracle_home db_name db_unique_name sid)"
    by (simp add: stop_request_def)
  have start: "\<not> is_get (start_request g oracle_home db_name db_unique_name sid)"
    by (simp add: start_request_def)
  have mount:
    "\<not> is_get (mount_request g oracle_home db_name db_unique_name sid instance_name israc)"
    by (simp add: mount_request_def)
  have imm: "filter is_get (norestart_requests g w cds) = []"
    by (simp add: norestart_requests_def connect filter_empty_conv image_iff)
  have loop: "filter is_get (concat (map (\<lambda>sql. [ReqSql sql,
                 stop_request g oracle_home db_name db_unique_name sid,
                 start_request g oracle_home db_name db_unique_name sid]) crs)) = []"
    by (induction crs) (simp_all add: stop start)
  have rst: "filter is_get (restart_requests g w oracle_home db_name db_unique_name sid
                              instance_name israc crs) = []"
    by (simp add: restart_requests_def connect stop mount loop)
  show ?thesis
    by (simp add: batch_requests_def Let_def imm rst)
qed

section \<open>Passes on the concrete hosts\<close>

lemma observe_host':
  "observe (ctx0 gi new) (host lines commands (db_queries [a, b, c] par inst lm fo fb)) [] =
     (Inr (observed_of a b c par inst lm fo fb, Some inst, par \<noteq> ''NO''),
      [Connect ''dbhost:1521/orcl'' None,
       SqlGet propsql (Inr [[Some a], [Some b], [Some c]]),
       SqlGet israc_sql (Inr [[Some par, Some inst, Some ''dbhost'']]),
       SqlGet log_check_sql (Inr [[Some lm, Some fo, Some fb]])])"
  using observe_host [of gi new lines commands a b c par inst lm fo fb "[]"]
  by (simp add: observed_of_def)

lemma observed_cells:
  "index (def_tbs_type (observed_of a b c par inst lm fo fb)) 0 = Inr (Some a)"
  "index (def_tbs (observed_of a b c par inst lm fo fb)) 0 = Inr (Some b)"
  "index (def_temp_tbs (observed_of a b c par inst lm fo fb)) 0 = Inr (Some c)"
  "index2 (log_check_rows (observed_of a b c par inst lm fo fb)) 0 0 = Inr (Some lm)"
  "index2 (log_check_rows (observed_of a b c par inst lm fo fb)) 0 (Suc 0) = Inr (Some fo)"
  "index2 (log_check_rows (observed_of a b c par inst lm fo fb)) 0 2 = Inr (Some fb)"
  by (simp_all add: observed_of_def index2_def index_def then_e_def)

lemma plan_host:
  "plan_changes (declare_logging a fl fb) (observed_of ''smallfile'' b c par inst lm fo fbo) =
     Inr (if lm \<noteq> archcomp_of a then [archsql_of a] else [],
          (if fo \<noteq> flcomp_of fl then [flsql_of fl] else []) @
          (if fbo \<noteq> fbcomp_of fb then [fbsql_of fb] else []))"
  by (simp add: plan_changes_def declare_logging_def observed_cells then_e_def)

lemma stop_db_host:
  "stop_db (ctx0 False new) (host lines commands queries) oracle_home db_name u None h =
     (Inr True, h @ [Sqlplus db_name (oracle_home @ ''/bin/sqlplus'') shutdown_sql (0, [], [])])"
  by (simp add: stop_db_def ctx0_def host_def and_then_def sqlplus_nolog_def ret_def Let_def)

lemma start_db_host:
  "start_db (ctx0 False new) (host lines commands queries) oracle_home db_name u None h =
     (Inr True, h @ [Sqlplus db_name (oracle_home @ ''/bin/sqlplus'') startup_sql (0, [], [])])"
  by (simp add: start_db_def ctx0_def host_def and_then_def sqlplus_nolog_def ret_def Let_def)

lemma start_instance_host:
  "start_instance (ctx0 False new) (host lines commands queries) oracle_home db_name u None
      m inst israc h =
     (Inr True,
      h @ [Sqlplus db_name (oracle_home @ ''/bin/sqlplus'') startup_mount_sql (0, [], [])])"
  by (simp add: start_instance_def ctx0_def host_def and_then_def sqlplus_nolog_def ret_def Let_def)

lemma apply_restart_changes_host:
  "apply_restart_changes (ctx0 False new) (host lines commands queries) oracle_home db_name u
      None inst israc archcomp [sql] h =
     (Inr (), h @ [Sqlplus db_name (oracle_home @ ''/bin/sqlplus'') shutdown_sql (0, [], []),
                   Sqlplus db_name (oracle_home @ ''/bin/sqlplus'') startup_mount_sql (0, [], []),
                   Sleep 10,
                   Connect ''dbhost:1521/orcl'' None,
                   Sql sql None,
                   Sqlplus db_name (oracle_home @ ''/bin/sqlplus'') shutdown_sql (0, [], []),
                   Sqlplus db_name (oracle_home @ ''/bin/sqlplus'') startup_sql (0, [], [])])"
  by (simp add: apply_restart_changes_def and_then_def stop_db_host start_instance_host
      time_sleep_def getconn_host execute_sql_host start_db_host ret_def)

lemma apply_norestart_changes_host:
  "apply_norestart_changes (ctx0 gi new) (host lines commands queries) sqls h =
     (Inr (), h @ Connect ''dbhost:1521/orcl'' None # map (\<lambda>sql. Sql sql None) sqls)"
proof -
  have loop: "\<And>h. norestart_loop (host lines commands queries) sqls h =
                (Inr (), h @ map (\<lambda>sql. Sql sql None) sqls)"
    by (induction sqls) (simp_all add: ret_def and_then_def execute_sql_host)
  show ?thesis
    by (simp add: apply_norestart_changes_def and_then_def getconn_host loop)
qed

lemma pass_both_off:
  "ensure_db_state (ctx0 False False)
     (host None all_ok (db_queries [''smallfile'', ''temp'', ''users''] ''NO'' ''orcl''
        ''ARCHIVELOG'' ''NO'' ''YES''))
     ''/opt/db/a'' ''orcl'' None None (declare_logging False False False) [] =
   (Inl (ExitJson (intended_state_msg ''orcl'' (declare_logging False False False)) True),
    [Connect ''dbhost:1521/orcl'' None,
     SqlGet propsql (Inr [[Some ''smallfile''], [Some ''temp''], [Some ''users'']]),
     SqlGet israc_sql (Inr [[Some ''NO'', Some ''orcl'', Some ''dbhost'']]),
     SqlGet log_check_sql (Inr [[Some ''ARCHIVELOG'', Some ''NO'', Some ''YES'']]),
     Connect ''dbhost:1521/orcl'' None,
     Sql ''alter database flashback off'' None,
     Sqlplus ''orcl'' ''/opt/db/a/bin/sqlplus'' shutdown_sql (0, [], []),
     Sqlplus ''orcl'' ''/opt/db/a/bin/sqlplus'' startup_mount_sql (0, [], []),
     Sleep 10,
     Connect ''dbhost:1521/orcl'' None,
     Sql ''alter database noarchivelog'' None,
     Sqlplus ''orcl'' ''/opt/db/a/bin/sqlplus'' shutdown_sql (0, [], []),
     Sqlplus ''orcl'' ''/opt/db/a/bin/sqlplus'' startup_sql (0, [], [])])"
proof -
  have plan:
    "plan_changes (declare_logging False False False)
       (observed_of ''smallfile'' ''temp'' ''users'' ''NO'' ''orcl'' ''ARCHIVELOG'' ''NO'' ''YES'') =
     Inr ([''alter database noarchivelog''], [''alter database flashback off''])"
    by (simp add: plan_host archcomp_of_def archsql_of_def flcomp_of_def fbcomp_of_def
        fbsql_of_def alterdb_sql_def)
  have first:
    "flashback_first (declare_logging False False False)
       (observed_of ''smallfile'' ''temp'' ''users'' ''NO'' ''orcl'' ''ARCHIVELOG'' ''NO'' ''YES'') =
     Inr True"
    by (simp add: flashback_first_def then_e_def observed_cells declare_logging_def)
  show ?thesis
    by (simp add: ensure_db_state_def and_then_def observe_host' plan first lift_def
        apply_norestart_changes_host apply_restart_changes_host halt_def ret_def)
qed

lemma pass_both_on:
  "ensure_db_state (ctx0 False False)
     (host None all_ok (db_queries [''smallfile'', ''temp'', ''users''] ''NO'' ''orcl''
        ''NOARCHIVELOG'' ''NO'' ''NO''))
     ''/opt/db/a'' ''orcl'' None None (declare_logging True False True) [] =
   (Inl (ExitJson (intended_state_msg ''orcl'' (declare_logging True False True)) True),
    [Connect ''dbhost:1521/orcl'' None,
     SqlGet propsql (Inr [[Some ''smallfile''], [Some ''temp''], [Some ''users'']]),
     SqlGet israc_sql (Inr [[Some ''NO'', Some ''orcl'', Some ''dbhost'']]),
     SqlGet log_check_sql (Inr [[Some ''NOARCHIVELOG'', Some ''NO'', Some ''NO'']]),
     Sqlplus ''orcl'' ''/opt/db/a/bin/sqlplus'' shutdown_sql (0, [], []),
     Sqlplus ''orcl'' ''/opt/db/a/bin/sqlplus'' startup_mount_sql (0, [], []),
     Sleep 10,
     Connect ''dbhost:1521/orcl'' None,
     Sql ''alter database archivelog'' None,
     Sqlplus ''orcl'' ''/opt/db/a/bin/sqlplus'' shutdown_sql (0, [], []),
     Sqlplus ''orcl'' ''/opt/db/a/bin/sqlplus'' startup_sql (0, [], []),
     Connect ''dbhost:1521/orcl'' None,
     Sql ''alter database flashback on'' None])"
proof -
  have plan:
    "plan_changes (declare_logging True False True)
       (observed_of ''smallfile'' ''temp'' ''users'' ''NO'' ''orcl'' ''NOARCHIVELOG'' ''NO'' ''NO'') =
     Inr ([''alter database archivelog''], [''alter database flashback on''])"
    by (simp add: plan_host archcomp_of_def archsql_of_def flcomp_of_def fbcomp_of_def
        fbsql_of_def alterdb_sql_def)
  have first:
    "flashback_first (declare_logging True False True)
       (observed_of ''smallfile'' ''temp'' ''users'' ''NO'' ''orcl'' ''NOARCHIVELOG'' ''NO'' ''NO'') =
     Inr False"
    by (simp add: flashback_first_def then_e_def observed_cells declare_logging_def)
  show ?thesis
    by (simp add: ensure_db_state_def and_then_def observe_host' plan first lift_def
        apply_norestart_changes_host apply_restart_changes_host halt_def ret_def)
qed

lemma pass_archivelog_on:
  "ensure_db_state (ctx0 False False)
     (host None all_ok (db_queries [''smallfile'', ''temp'', ''users''] ''NO'' ''orcl''
        ''NOARCHIVELOG'' ''NO'' ''NO''))
     ''/opt/db/a'' ''orcl'' None None (declare_logging True False False) [] =
   (Inl (ExitJson (intended_state_msg ''orcl'' (declare_logging True False False)) True),
    [Connect ''dbhost:1521/orcl'' None,
     SqlGet propsql (Inr [[Some ''smallfile''], [Some ''temp''], [Some ''users'']]),
     SqlGet israc_sql (Inr [[Some ''NO'', Some ''orcl'', Some ''dbhost'']]),
     SqlGet log_check_sql (Inr [[Some ''NOARCHIVELOG'', Some ''NO'', Some ''NO'']]),
     Sqlplus ''orcl'' ''/opt/db/a/bin/sqlplus'' shutdown_sql (0, [], []),
     Sqlplus ''orcl'' ''/opt/db/a/bin/sqlplus'' startup_mount_sql (0, [], []),
     Sleep 10,
     Connect ''dbhost:1521/orcl'' None,
     Sql ''alter database archivelog'' None,
     Sqlplus ''orcl'' ''/opt/db/a/bin/sqlplus'' shutdown_sql (0, [], []),
     Sqlplus ''orcl'' ''/opt/db/a/bin/sqlplus'' startup_sql (0, [], [])])"
proof -
  have plan:
    "plan_changes (declare_logging True False False)
     (observed_of ''smallfile'' ''temp'' ''users'' ''NO'' ''orcl'' ''NOARCHIVELOG'' ''NO'' ''NO'') =
     Inr ([''alter database archivelog''], [])"
    by (simp add: plan_host archcomp_of_def archsql_of_def flcomp_of_def fbcomp_of_def
        fbsql_of_def alterdb_sql_def)
  have first:
    "flashback_first (declare_logging True False False)
       (observed_of ''smallfile'' ''temp'' ''users'' ''NO'' ''orcl'' ''NOARCHIVELOG'' ''NO'' ''NO'') =
     Inr False"
    by (simp add: flashback_first_def then_e_def observed_cells declare_logging_def)
  show ?thesis
    by (simp add: ensure_db_state_def and_then_def observe_host' plan first lift_def
        apply_norestart_changes_host apply_restart_changes_host halt_def ret_def)
qed

lemma ctx0_fields:
  "gimanaged (ctx0 gi new) = gi" "newdb (ctx0 gi new) = new" "output' (ctx0 gi new) = ''short''"
  by (simp_all add: ctx0_def)

lemma declare_logging_fields:
  "archivelog (declare_logging a fl fb) = a" "force_logging (declare_logging a fl fb) = fl"
  "flashback (declare_logging a fl fb) = fb"
  "default_tablespace_type (declare_logging a fl fb) = ''smallfile''"
  "default_tablespace (declare_logging a fl fb) = None"
  "default_temp_tablespace (declare_logging a fl fb) = None"
  by (simp_all add: declare_logging_def)

lemma remove_db_target_in_words:
  assumes "index2 rows 0 0 = Inr par"
  shows "remove_db_target g db_name sid db_unique_name rows =
           Inr (removal_identifier (gimanaged g) db_name sid db_unique_name par)"
  using assms
  by (simp add: remove_db_target_def removal_identifier_def then_e_def split: option.splits)

lemma module_run_command_host:
  "module_run_command (host lines commands queries) c h =
     (Inr (commands c), h @ [RunCommand c (commands c)])"
  by (simp add: module_run_command_def host_def Let_def)

lemma remove_db_host:
  "remove_db (ctx0 gi new) (host lines all_ok (db_queries props par inst lm fo fb))
      oracle_home db_name sid db_unique_name sys_password h =
     (Inr True,
      h @ [Connect ''dbhost:1521/orcl'' None,
           SqlGet israc_sql (Inr [[Some par, Some inst, Some ''dbhost'']]),
           RunCommand
             (delete_command oracle_home
                (removal_identifier gi db_name sid db_unique_name (Some par)) sys_password)
             (0, [], [])])"
proof -
  have target:
    "remove_db_target (ctx0 gi new) db_name sid db_unique_name
       [[Some par, Some inst, Some ''dbhost'']] =
     Inr (removal_identifier gi db_name sid db_unique_name (Some par))"
    using remove_db_target_in_words [of "[[Some par, Some inst, Some ''dbhost'']]" "Some par"
        "ctx0 gi new" db_name sid db_unique_name]
    by (simp add: index2_def index_def then_e_def ctx0_fields)
  show ?thesis
    by (simp add: remove_db_def and_then_def getconn_host execute_sql_get_host db_queries_simps
        lift_def target module_run_command_host all_ok_def ctx0_fields ret_def
        delete_command_def Let_def)
qed

lemma located_by_sid:
  "check_db_exists (ctx0 False False)
     (host (Some [''orcl1:/opt/db/a:N\<newline>'']) all_ok
        (db_queries [''smallfile'', ''temp'', ''users''] ''NO'' ''orcl1'' ''NOARCHIVELOG'' ''NO'' ''NO''))
     ''/opt/db/a'' ''orcl'' (Some ''orcl1'') None [] = (Inr (Some True), [])"
  by (simp add: check_db_exists_def host_eval scan_entry_def check_home_def index_def
      rstrip_def run_eval)

lemma propsql_answer_example:
  "propsql_answer
     \<lparr>DEFAULT_TBS_TYPE = ''SMALLFILE'', DEFAULT_PERMANENT_TABLESPACE = ''USERS'',
        DEFAULT_TEMP_TABLESPACE = ''TEMP''\<rparr> =
     [''smallfile'', ''temp'', ''users'']"
  by (simp add: propsql_answer_def order_by_1_def lower_def lower_char_def)








section \<open>The claims\<close>

text \<open>
  C3 (fails on the code; see the locator of \<^verbatim>\<open>oracle_datapatch\<close>). The claim: in either
  control mode and in both modules' locators, an instance registered under another
  installation path makes the locator signal a fatal DivergentInstallation, never NotFound
  and never Found. Under cluster-managed mode, when \<^verbatim>\<open>srvctl config database\<close> fails with
  \<^verbatim>\<open>PRCD-1229\<close>, the locator of \<^verbatim>\<open>oracle_db\<close> ends the pass with \<^verbatim>\<open>fail_json\<close>, while the
  locator of \<^verbatim>\<open>oracle_datapatch\<close>, given the same answer, returns \<^verbatim>\<open>False\<close> (not found).
\<close>

theorem datapatch_locator_ignores_different_home:
  "fst (datapatch_check_db_exists True (host None prcd_1229 no_rows)
          ''/opt/db/b'' ''orcl'' None None []) = Inr (Some False) \<and>
   (\<exists>msg. fst (check_db_exists (ctx0 True False) (host None prcd_1229 no_rows)
                  ''/opt/db/b'' ''orcl'' None None []) = Inl (FailJson msg (Some False)))"
  by (simp add: datapatch_check_db_exists_def check_db_exists_def host_def ctx0_def
      prcd_1229_def run_eval)

text \<open>
  C8. A pass with target absent in which the locator does not find the instance (it
  returns \<^verbatim>\<open>False\<close> or \<^verbatim>\<open>None\<close>) ends with \<^verbatim>\<open>exit_json\<close>, \<^verbatim>\<open>changed=False\<close>: no error
  is raised and nothing is asked of the host after the locator.
\<close>

theorem absent_not_found_unchanged:
  assumes "check_db_exists g w oracle_home db_name sid db_unique_name h = (Inr found, h1)"
      and "\<not> is_true found"
  shows "main_absent g w oracle_home db_name sid db_unique_name sys_password h =
           (Inl (ExitJson (''Database '' @ db_name @ '' doesn't exist'') False), h1)"
  using assms by (simp add: main_absent_def and_then_def halt_def)

theorem absent_not_found_unchanged_witness:
  "check_db_exists (ctx0 False False) (host None all_ok no_rows)
       ''/opt/db/a'' ''orcl'' None None [] = (Inr (Some False), []) \<and>
   \<not> is_true (Some False) \<and>
   main_absent (ctx0 False False) (host None all_ok no_rows)
       ''/opt/db/a'' ''orcl'' None None (Some ''secret'') [] =
     (Inl (ExitJson ''Database orcl doesn't exist'' False), [])"
proof -
  have located:
    "check_db_exists (ctx0 False False) (host None all_ok no_rows)
       ''/opt/db/a'' ''orcl'' None None [] = (Inr (Some False), [])"
    by (simp add: check_db_exists_def host_eval run_eval)
  have falsy: "\<not> is_true (Some False)"
    by (simp add: is_true_def)
  show ?thesis
    using located falsy
      absent_not_found_unchanged [OF located falsy, of "Some ''secret''"]
    by simp
qed

text \<open>
  C10. In standalone mode with no sid, the locator of \<^verbatim>\<open>oracle_db\<close> matches lines of
  \<^verbatim>\<open>/etc/oratab\<close> by substring. With the single entry \<^verbatim>\<open>xorcl:/opt/db/a:N\<close> (its key is
  \<^verbatim>\<open>xorcl\<close>, so no instance is named \<^verbatim>\<open>orcl\<close>) a request for \<^verbatim>\<open>orcl\<close> under
  \<^verbatim>\<open>/opt/db/b\<close> ends with the fatal "exists in a different ORACLE\_HOME", and a request
  for \<^verbatim>\<open>orcl\<close> under \<^verbatim>\<open>/opt/db/a\<close> returns \<^verbatim>\<open>True\<close> (found).
\<close>

theorem locator_matches_by_substring:
  "map (\<lambda>line. index (split_on CHR '':'' line) 0) [''xorcl:/opt/db/a:N\<newline>''] =
     [Inr ''xorcl''] \<and>
   check_db_exists (ctx0 False False)
       (host (Some [''xorcl:/opt/db/a:N\<newline>'']) all_ok no_rows)
       ''/opt/db/b'' ''orcl'' None None [] =
     (Inl (FailJson ''Database orcl already exists in a different ORACLE_HOME (/opt/db/a)''
        (Some False)), []) \<and>
   check_db_exists (ctx0 False False)
       (host (Some [''xorcl:/opt/db/a:N\<newline>'']) all_ok no_rows)
       ''/opt/db/a'' ''orcl'' None None [] = (Inr (Some True), [])"
  by (simp add: check_db_exists_def host_eval scan_entry_def check_home_def index_def
      rstrip_def run_eval different_home_msg_def)

text \<open>
  C1. When the live instance is in archivelog mode with flashback on and the declared state
  turns both off, the plan holds the restart-class statement \<^verbatim>\<open>alter database noarchivelog\<close>
  and, among the immediate ones, \<^verbatim>\<open>alter database flashback off\<close>; after its reads the
  pass issues the whole immediate batch and only then the restart batch. A pass that ends
  with \<^verbatim>\<open>exit_json\<close> has issued exactly these requests, in this order, and reports a
  change; a pass cut short by a failure has issued a prefix of them.
\<close>

theorem flashback_off_before_archivelog_off:
  assumes obs: "observe g w h = (Inr (ob, instance_name, israc), h1)"
      and plan: "plan_changes d ob = Inr (change_restart_sql, change_db_sql)"
      and live_archivelog: "index2 (log_check_rows ob) 0 0 = Inr (Some ''ARCHIVELOG'')"
      and live_flashback: "index2 (log_check_rows ob) 0 2 = Inr (Some ''YES'')"
      and declared: "\<not> archivelog d" "\<not> flashback d"
  shows "change_restart_sql = [''alter database noarchivelog''] \<and>
         ''alter database flashback off'' \<in> set change_db_sql \<and>
         (\<exists>es. snd (ensure_db_state g w oracle_home db_name db_unique_name sid d h) = h1 @ es \<and>
            prefix (map request_of es)
              (norestart_requests g w change_db_sql @
               restart_requests g w oracle_home db_name db_unique_name sid instance_name israc
                 change_restart_sql) \<and>
            (\<exists>e. fst (ensure_db_state g w oracle_home db_name db_unique_name sid d h) = Inl e \<and>
               (is_exit_json e \<longrightarrow>
                  e = ExitJson (intended_state_msg db_name d) True \<and>
                  map request_of es =
                    norestart_requests g w change_db_sql @
                    restart_requests g w oracle_home db_name db_unique_name sid instance_name
                      israc change_restart_sql)))"
proof -
  have crs: "change_restart_sql = [''alter database noarchivelog'']"
    using plan_restart [OF plan live_archivelog] declared
    by (simp add: archcomp_of_def archsql_of_def alterdb_sql_def)
  have fb: "''alter database flashback off'' \<in> set change_db_sql"
    using plan_flashback [OF plan live_flashback] declared
    by (simp add: fbcomp_of_def fbsql_of_def alterdb_sql_def)
  have first: "flashback_first d ob = Inr True"
    using flashback_first_value [OF live_archivelog live_flashback, of d] declared by simp
  have nonempty: "change_db_sql \<noteq> []" using fb by auto
  have batches:
    "batch_requests g w oracle_home db_name db_unique_name sid instance_name israc True
       change_restart_sql change_db_sql =
     norestart_requests g w change_db_sql @
     restart_requests g w oracle_home db_name db_unique_name sid instance_name israc
       change_restart_sql"
    using nonempty crs by (simp add: batch_requests_def)
  show ?thesis
    using ensure_db_state_requests [OF obs plan first, of oracle_home db_name db_unique_name sid]
      crs fb nonempty
    unfolding batches by auto
qed

theorem flashback_off_before_archivelog_off_witness:
  "observe (ctx0 False False)
     (host None all_ok (db_queries [''smallfile'', ''temp'', ''users''] ''NO'' ''orcl''
        ''ARCHIVELOG'' ''NO'' ''YES'')) [] =
     (Inr (observed_of ''smallfile'' ''temp'' ''users'' ''NO'' ''orcl'' ''ARCHIVELOG'' ''NO'' ''YES'',
           Some ''orcl'', False),
      [Connect ''dbhost:1521/orcl'' None,
       SqlGet propsql (Inr [[Some ''smallfile''], [Some ''temp''], [Some ''users'']]),
       SqlGet israc_sql (Inr [[Some ''NO'', Some ''orcl'', Some ''dbhost'']]),
       SqlGet log_check_sql (Inr [[Some ''ARCHIVELOG'', Some ''NO'', Some ''YES'']])]) \<and>
   plan_changes (declare_logging False False False)
     (observed_of ''smallfile'' ''temp'' ''users'' ''NO'' ''orcl'' ''ARCHIVELOG'' ''NO'' ''YES'') =
     Inr ([''alter database noarchivelog''], [''alter database flashback off'']) \<and>
   index2 (log_check_rows
     (observed_of ''smallfile'' ''temp'' ''users'' ''NO'' ''orcl'' ''ARCHIVELOG'' ''NO'' ''YES''))
     0 0 = Inr (Some ''ARCHIVELOG'') \<and>
   index2 (log_check_rows
     (observed_of ''smallfile'' ''temp'' ''users'' ''NO'' ''orcl'' ''ARCHIVELOG'' ''NO'' ''YES''))
     0 2 = Inr (Some ''YES'') \<and>
   \<not> archivelog (declare_logging False False False) \<and>
   \<not> flashback (declare_logging False False False) \<and>
   (\<exists>es. snd (ensure_db_state (ctx0 False False)
            (host None all_ok (db_queries [''smallfile'', ''temp'', ''users''] ''NO'' ''orcl''
               ''ARCHIVELOG'' ''NO'' ''YES''))
            ''/opt/db/a'' ''orcl'' None None (declare_logging False False False) []) =
          [Connect ''dbhost:1521/orcl'' None,
           SqlGet propsql (Inr [[Some ''smallfile''], [Some ''temp''], [Some ''users'']]),
           SqlGet israc_sql (Inr [[Some ''NO'', Some ''orcl'', Some ''dbhost'']]),
           SqlGet log_check_sql (Inr [[Some ''ARCHIVELOG'', Some ''NO'', Some ''YES'']])] @ es \<and>
        prefix (map request_of es)
          (norestart_requests (ctx0 False False)
             (host None all_ok (db_queries [''smallfile'', ''temp'', ''users''] ''NO'' ''orcl''
                ''ARCHIVELOG'' ''NO'' ''YES''))
             [''alter database flashback off''] @
           restart_requests (ctx0 False False)
             (host None all_ok (db_queries [''smallfile'', ''temp'', ''users''] ''NO'' ''orcl''
                ''ARCHIVELOG'' ''NO'' ''YES''))
             ''/opt/db/a'' ''orcl'' None None (Some ''orcl'') False
             [''alter database noarchivelog''])) \<and>
   map request_of
     (snd (ensure_db_state (ctx0 False False)
        (host None all_ok (db_queries [''smallfile'', ''temp'', ''users''] ''NO'' ''orcl''
           ''ARCHIVELOG'' ''NO'' ''YES''))
        ''/opt/db/a'' ''orcl'' None None (declare_logging False False False) [])) =
     [ReqConnect ''dbhost:1521/orcl'', ReqGet propsql, ReqGet israc_sql, ReqGet log_check_sql,
      ReqConnect ''dbhost:1521/orcl'',
      ReqSql ''alter database flashback off'',
      ReqSqlplus ''orcl'' ''/opt/db/a/bin/sqlplus'' shutdown_sql,
      ReqSqlplus ''orcl'' ''/opt/db/a/bin/sqlplus'' startup_mount_sql,
      ReqSleep 10,
      ReqConnect ''dbhost:1521/orcl'',
      ReqSql ''alter database noarchivelog'',
      ReqSqlplus ''orcl'' ''/opt/db/a/bin/sqlplus'' shutdown_sql,
      ReqSqlplus ''orcl'' ''/opt/db/a/bin/sqlplus'' startup_sql]"
proof -
  let ?ob = "observed_of ''smallfile'' ''temp'' ''users'' ''NO'' ''orcl'' ''ARCHIVELOG'' ''NO'' ''YES''"
  let ?d = "declare_logging False False False"
  have obs: "observe (ctx0 False False)
     (host None all_ok (db_queries [''smallfile'', ''temp'', ''users''] ''NO'' ''orcl''
        ''ARCHIVELOG'' ''NO'' ''YES'')) [] =
     (Inr (?ob, Some ''orcl'', False),
      [Connect ''dbhost:1521/orcl'' None,
       SqlGet propsql (Inr [[Some ''smallfile''], [Some ''temp''], [Some ''users'']]),
       SqlGet israc_sql (Inr [[Some ''NO'', Some ''orcl'', Some ''dbhost'']]),
       SqlGet log_check_sql (Inr [[Some ''ARCHIVELOG'', Some ''NO'', Some ''YES'']])])"
    by (simp add: observe_host')
  have plan: "plan_changes ?d ?ob =
      Inr ([''alter database noarchivelog''], [''alter database flashback off''])"
    by (simp add: plan_host archcomp_of_def archsql_of_def flcomp_of_def fbcomp_of_def
        fbsql_of_def alterdb_sql_def)
  have live1: "index2 (log_check_rows ?ob) 0 0 = Inr (Some ''ARCHIVELOG'')"
    by (simp add: observed_cells)
  have live2: "index2 (log_check_rows ?ob) 0 2 = Inr (Some ''YES'')"
    by (simp add: observed_cells)
  have d1: "\<not> archivelog ?d" by (simp add: declare_logging_def)
  have d2: "\<not> flashback ?d" by (simp add: declare_logging_def)
  have run: "map request_of
     (snd (ensure_db_state (ctx0 False False)
        (host None all_ok (db_queries [''smallfile'', ''temp'', ''users''] ''NO'' ''orcl''
           ''ARCHIVELOG'' ''NO'' ''YES''))
        ''/opt/db/a'' ''orcl'' None None ?d [])) =
     [ReqConnect ''dbhost:1521/orcl'', ReqGet propsql, ReqGet israc_sql, ReqGet log_check_sql,
      ReqConnect ''dbhost:1521/orcl'',
      ReqSql ''alter database flashback off'',
      ReqSqlplus ''orcl'' ''/opt/db/a/bin/sqlplus'' shutdown_sql,
      ReqSqlplus ''orcl'' ''/opt/db/a/bin/sqlplus'' startup_mount_sql,
      ReqSleep 10,
      ReqConnect ''dbhost:1521/orcl'',
      ReqSql ''alter database noarchivelog'',
      ReqSqlplus ''orcl'' ''/opt/db/a/bin/sqlplus'' shutdown_sql,
      ReqSqlplus ''orcl'' ''/opt/db/a/bin/sqlplus'' startup_sql]"
    by (simp add: pass_both_off)
  have order: "\<exists>es. snd (ensure_db_state (ctx0 False False)
            (host None all_ok (db_queries [''smallfile'', ''temp'', ''users''] ''NO'' ''orcl''
               ''ARCHIVELOG'' ''NO'' ''YES''))
            ''/opt/db/a'' ''orcl'' None None ?d []) =
          [Connect ''dbhost:1521/orcl'' None,
           SqlGet propsql (Inr [[Some ''smallfile''], [Some ''temp''], [Some ''users'']]),
           SqlGet israc_sql (Inr [[Some ''NO'', Some ''orcl'', Some ''dbhost'']]),
           SqlGet log_check_sql (Inr [[Some ''ARCHIVELOG'', Some ''NO'', Some ''YES'']])] @ es \<and>
        prefix (map request_of es)
          (norestart_requests (ctx0 False False)
             (host None all_ok (db_queries [''smallfile'', ''temp'', ''users''] ''NO'' ''orcl''
                ''ARCHIVELOG'' ''NO'' ''YES''))
             [''alter database flashback off''] @
           restart_requests (ctx0 False False)
             (host None all_ok (db_queries [''smallfile'', ''temp'', ''users''] ''NO'' ''orcl''
                ''ARCHIVELOG'' ''NO'' ''YES''))
             ''/opt/db/a'' ''orcl'' None None (Some ''orcl'') False
             [''alter database noarchivelog''])"
    using flashback_off_before_archivelog_off
         [OF obs plan live1 live2 d1 d2, of "''/opt/db/a''" "''orcl''" None None]
    by blast
  from obs plan live1 live2 d1 d2 order run show ?thesis by (intro conjI)
qed

text \<open>
  C2. In every combination of live and declared states other than (live
  \<^verbatim>\<open>ARCHIVELOG\<close>, live flashback \<^verbatim>\<open>YES\<close>, archivelog and flashback both declared off)
  the pass, after its reads, issues the restart batch first (when it has a statement) and
  the immediate batch second (when it has one); a pass that ends with \<^verbatim>\<open>exit_json\<close> has
  issued exactly these requests. In particular, from \<^verbatim>\<open>NOARCHIVELOG\<close> and flashback
  \<^verbatim>\<open>NO\<close> to both declared on, \<^verbatim>\<open>alter database archivelog\<close> is the restart batch and
  \<^verbatim>\<open>alter database flashback on\<close> stands in the immediate batch, after the whole
  restart cycle.
\<close>

theorem restart_batch_first_otherwise:
  assumes obs: "observe g w h = (Inr (ob, instance_name, israc), h1)"
      and plan: "plan_changes d ob = Inr (change_restart_sql, change_db_sql)"
      and live_archivelog: "index2 (log_check_rows ob) 0 0 = Inr log_mode"
      and live_flashback: "index2 (log_check_rows ob) 0 2 = Inr flashback_on"
      and other: "\<not> (log_mode = Some ''ARCHIVELOG'' \<and> flashback_on = Some ''YES'' \<and>
                      \<not> archivelog d \<and> \<not> flashback d)"
  shows "(\<exists>es. snd (ensure_db_state g w oracle_home db_name db_unique_name sid d h) = h1 @ es \<and>
            prefix (map request_of es)
              ((if change_restart_sql = [] then []
                else restart_requests g w oracle_home db_name db_unique_name sid instance_name
                       israc change_restart_sql) @
               (if change_db_sql = [] then [] else norestart_requests g w change_db_sql)) \<and>
            (\<exists>e. fst (ensure_db_state g w oracle_home db_name db_unique_name sid d h) = Inl e \<and>
               (is_exit_json e \<longrightarrow>
                  map request_of es =
                    (if change_restart_sql = [] then []
                     else restart_requests g w oracle_home db_name db_unique_name sid
                            instance_name israc change_restart_sql) @
                    (if change_db_sql = [] then []
                     else norestart_requests g w change_db_sql)))) \<and>
         (log_mode = Some ''NOARCHIVELOG'' \<and> flashback_on = Some ''NO'' \<and>
          archivelog d \<and> flashback d \<longrightarrow>
            change_restart_sql = [''alter database archivelog''] \<and>
            ''alter database flashback on'' \<in> set change_db_sql)"
proof -
  have first: "flashback_first d ob = Inr False"
    using flashback_first_value [OF live_archivelog live_flashback, of d] other by simp
  have batches:
    "batch_requests g w oracle_home db_name db_unique_name sid instance_name israc False
       change_restart_sql change_db_sql =
     (if change_restart_sql = [] then []
      else restart_requests g w oracle_home db_name db_unique_name sid instance_name
             israc change_restart_sql) @
     (if change_db_sql = [] then [] else norestart_requests g w change_db_sql)"
    by (simp add: batch_requests_def)
  have order:
    "\<exists>es. snd (ensure_db_state g w oracle_home db_name db_unique_name sid d h) = h1 @ es \<and>
            prefix (map request_of es)
              ((if change_restart_sql = [] then []
                else restart_requests g w oracle_home db_name db_unique_name sid instance_name
                       israc change_restart_sql) @
               (if change_db_sql = [] then [] else norestart_requests g w change_db_sql)) \<and>
            (\<exists>e. fst (ensure_db_state g w oracle_home db_name db_unique_name sid d h) = Inl e \<and>
               (is_exit_json e \<longrightarrow>
                  map request_of es =
                    (if change_restart_sql = [] then []
                     else restart_requests g w oracle_home db_name db_unique_name sid
                            instance_name israc change_restart_sql) @
                    (if change_db_sql = [] then []
                     else norestart_requests g w change_db_sql)))"
    using ensure_db_state_requests [OF obs plan first, of oracle_home db_name db_unique_name sid]
    unfolding batches by blast
  have both_on:
    "change_restart_sql = [''alter database archivelog''] \<and>
     ''alter database flashback on'' \<in> set change_db_sql"
    if "log_mode = Some ''NOARCHIVELOG''" "flashback_on = Some ''NO''"
       "archivelog d" "flashback d"
  proof
    show "change_restart_sql = [''alter database archivelog'']"
      using plan_restart [OF plan live_archivelog] that
      by (simp add: archcomp_of_def archsql_of_def alterdb_sql_def)
    show "''alter database flashback on'' \<in> set change_db_sql"
      using plan_flashback [OF plan live_flashback] that
      by (simp add: fbcomp_of_def fbsql_of_def alterdb_sql_def)
  qed
  show ?thesis using order both_on by blast
qed

theorem restart_batch_first_otherwise_witness:
  "observe (ctx0 False False)
     (host None all_ok (db_queries [''smallfile'', ''temp'', ''users''] ''NO'' ''orcl''
        ''NOARCHIVELOG'' ''NO'' ''NO'')) [] =
     (Inr ((observed_of ''smallfile'' ''temp'' ''users'' ''NO'' ''orcl'' ''NOARCHIVELOG'' ''NO'' ''NO''),
           Some ''orcl'', False),
      [Connect ''dbhost:1521/orcl'' None,
       SqlGet propsql (Inr [[Some ''smallfile''], [Some ''temp''], [Some ''users'']]),
       SqlGet israc_sql (Inr [[Some ''NO'', Some ''orcl'', Some ''dbhost'']]),
       SqlGet log_check_sql (Inr [[Some ''NOARCHIVELOG'', Some ''NO'', Some ''NO'']])]) \<and>
   plan_changes (declare_logging True False True)
     (observed_of ''smallfile'' ''temp'' ''users'' ''NO'' ''orcl'' ''NOARCHIVELOG'' ''NO'' ''NO'') =
     Inr ([''alter database archivelog''], [''alter database flashback on'']) \<and>
   index2 (log_check_rows
     (observed_of ''smallfile'' ''temp'' ''users'' ''NO'' ''orcl'' ''NOARCHIVELOG'' ''NO'' ''NO''))
     0 0 = Inr (Some ''NOARCHIVELOG'') \<and>
   index2 (log_check_rows
     (observed_of ''smallfile'' ''temp'' ''users'' ''NO'' ''orcl'' ''NOARCHIVELOG'' ''NO'' ''NO''))
     0 2 = Inr (Some ''NO'') \<and>
   \<not> (Some ''NOARCHIVELOG'' = Some ''ARCHIVELOG'' \<and> Some ''NO'' = Some ''YES'' \<and>
       \<not> archivelog (declare_logging True False True) \<and> \<not> flashback (declare_logging True False True)) \<and>
   archivelog (declare_logging True False True) \<and> flashback (declare_logging True False True) \<and>
   (\<exists>es. snd (ensure_db_state (ctx0 False False)
            (host None all_ok (db_queries [''smallfile'', ''temp'', ''users''] ''NO'' ''orcl''
        ''NOARCHIVELOG'' ''NO'' ''NO''))
            ''/opt/db/a'' ''orcl'' None None (declare_logging True False True) []) =
          [Connect ''dbhost:1521/orcl'' None,
       SqlGet propsql (Inr [[Some ''smallfile''], [Some ''temp''], [Some ''users'']]),
       SqlGet israc_sql (Inr [[Some ''NO'', Some ''orcl'', Some ''dbhost'']]),
       SqlGet log_check_sql (Inr [[Some ''NOARCHIVELOG'', Some ''NO'', Some ''NO'']])] @ es \<and>
        prefix (map request_of es)
          (restart_requests (ctx0 False False)
             (host None all_ok (db_queries [''smallfile'', ''temp'', ''users''] ''NO'' ''orcl''
        ''NOARCHIVELOG'' ''NO'' ''NO''))
             ''/opt/db/a'' ''orcl'' None None (Some ''orcl'') False
             [''alter database archivelog''] @
           norestart_requests (ctx0 False False)
             (host None all_ok (db_queries [''smallfile'', ''temp'', ''users''] ''NO'' ''orcl''
        ''NOARCHIVELOG'' ''NO'' ''NO''))
             [''alter database flashback on''])) \<and>
   map request_of
     (snd (ensure_db_state (ctx0 False False)
        (host None all_ok (db_queries [''smallfile'', ''temp'', ''users''] ''NO'' ''orcl''
        ''NOARCHIVELOG'' ''NO'' ''NO''))
        ''/opt/db/a'' ''orcl'' None None (declare_logging True False True) [])) =
     [ReqConnect ''dbhost:1521/orcl'', ReqGet propsql, ReqGet israc_sql, ReqGet log_check_sql,
      ReqSqlplus ''orcl'' ''/opt/db/a/bin/sqlplus'' shutdown_sql,
      ReqSqlplus ''orcl'' ''/opt/db/a/bin/sqlplus'' startup_mount_sql,
      ReqSleep 10,
      ReqConnect ''dbhost:1521/orcl'',
      ReqSql ''alter database archivelog'',
      ReqSqlplus ''orcl'' ''/opt/db/a/bin/sqlplus'' shutdown_sql,
      ReqSqlplus ''orcl'' ''/opt/db/a/bin/sqlplus'' startup_sql,
      ReqConnect ''dbhost:1521/orcl'',
      ReqSql ''alter database flashback on'']"
proof -
  have obs: "observe (ctx0 False False)
     (host None all_ok (db_queries [''smallfile'', ''temp'', ''users''] ''NO'' ''orcl''
        ''NOARCHIVELOG'' ''NO'' ''NO'')) [] =
     (Inr ((observed_of ''smallfile'' ''temp'' ''users'' ''NO'' ''orcl'' ''NOARCHIVELOG'' ''NO'' ''NO''),
           Some ''orcl'', False),
      [Connect ''dbhost:1521/orcl'' None,
       SqlGet propsql (Inr [[Some ''smallfile''], [Some ''temp''], [Some ''users'']]),
       SqlGet israc_sql (Inr [[Some ''NO'', Some ''orcl'', Some ''dbhost'']]),
       SqlGet log_check_sql (Inr [[Some ''NOARCHIVELOG'', Some ''NO'', Some ''NO'']])])"
    by (simp add: observe_host')
  have plan: "plan_changes (declare_logging True False True)
     (observed_of ''smallfile'' ''temp'' ''users'' ''NO'' ''orcl'' ''NOARCHIVELOG'' ''NO'' ''NO'') =
     Inr ([''alter database archivelog''], [''alter database flashback on''])"
    by (simp add: plan_host archcomp_of_def archsql_of_def flcomp_of_def fbcomp_of_def
        fbsql_of_def alterdb_sql_def)
  have live1: "index2 (log_check_rows
     (observed_of ''smallfile'' ''temp'' ''users'' ''NO'' ''orcl'' ''NOARCHIVELOG'' ''NO'' ''NO''))
     0 0 = Inr (Some ''NOARCHIVELOG'')"
    by (simp add: observed_cells)
  have live2: "index2 (log_check_rows
     (observed_of ''smallfile'' ''temp'' ''users'' ''NO'' ''orcl'' ''NOARCHIVELOG'' ''NO'' ''NO''))
     0 2 = Inr (Some ''NO'')"
    by (simp add: observed_cells)
  have other: "\<not> (Some ''NOARCHIVELOG'' = Some ''ARCHIVELOG'' \<and> Some ''NO'' = Some ''YES'' \<and>
       \<not> archivelog (declare_logging True False True) \<and> \<not> flashback (declare_logging True False True))"
    by simp
  have on: "archivelog (declare_logging True False True) \<and> flashback (declare_logging True False True)"
    by (simp add: declare_logging_def)
  have order: "(\<exists>es. snd (ensure_db_state (ctx0 False False)
            (host None all_ok (db_queries [''smallfile'', ''temp'', ''users''] ''NO'' ''orcl''
        ''NOARCHIVELOG'' ''NO'' ''NO''))
            ''/opt/db/a'' ''orcl'' None None (declare_logging True False True) []) =
          [Connect ''dbhost:1521/orcl'' None,
       SqlGet propsql (Inr [[Some ''smallfile''], [Some ''temp''], [Some ''users'']]),
       SqlGet israc_sql (Inr [[Some ''NO'', Some ''orcl'', Some ''dbhost'']]),
       SqlGet log_check_sql (Inr [[Some ''NOARCHIVELOG'', Some ''NO'', Some ''NO'']])] @ es \<and>
        prefix (map request_of es)
          (restart_requests (ctx0 False False)
             (host None all_ok (db_queries [''smallfile'', ''temp'', ''users''] ''NO'' ''orcl''
        ''NOARCHIVELOG'' ''NO'' ''NO''))
             ''/opt/db/a'' ''orcl'' None None (Some ''orcl'') False
             [''alter database archivelog''] @
           norestart_requests (ctx0 False False)
             (host None all_ok (db_queries [''smallfile'', ''temp'', ''users''] ''NO'' ''orcl''
        ''NOARCHIVELOG'' ''NO'' ''NO''))
             [''alter database flashback on'']))"
    using restart_batch_first_otherwise
         [OF obs plan live1 live2 other, of "''/opt/db/a''" "''orcl''" None None]
    by auto
  have run: "map request_of
     (snd (ensure_db_state (ctx0 False False)
        (host None all_ok (db_queries [''smallfile'', ''temp'', ''users''] ''NO'' ''orcl''
        ''NOARCHIVELOG'' ''NO'' ''NO''))
        ''/opt/db/a'' ''orcl'' None None (declare_logging True False True) [])) =
     [ReqConnect ''dbhost:1521/orcl'', ReqGet propsql, ReqGet israc_sql, ReqGet log_check_sql,
      ReqSqlplus ''orcl'' ''/opt/db/a/bin/sqlplus'' shutdown_sql,
      ReqSqlplus ''orcl'' ''/opt/db/a/bin/sqlplus'' startup_mount_sql,
      ReqSleep 10,
      ReqConnect ''dbhost:1521/orcl'',
      ReqSql ''alter database archivelog'',
      ReqSqlplus ''orcl'' ''/opt/db/a/bin/sqlplus'' shutdown_sql,
      ReqSqlplus ''orcl'' ''/opt/db/a/bin/sqlplus'' startup_sql,
      ReqConnect ''dbhost:1521/orcl'',
      ReqSql ''alter database flashback on'']"
    by (simp add: pass_both_on)
  from obs plan live1 live2 other conjunct1 [OF on] conjunct2 [OF on] order run
  show ?thesis by (intro conjI)
qed

text \<open>
  C7. Every execution of the restart batch asks of the host, in this order: stop, start to
  mount, the delay of ten seconds, a new connection, and then for each restart-class
  statement the statement, a stop and a start; an execution that returns has asked all of
  it, one cut short by a failure a prefix of it. And with archivelog declared on and
  flashback declared off against a live \<^verbatim>\<open>NOARCHIVELOG\<close> with flashback \<^verbatim>\<open>NO\<close> (the
  other declared properties equal to the live ones), the plan is the one restart-class
  statement \<^verbatim>\<open>alter database archivelog\<close> and no immediate statement.
\<close>

theorem restart_cycle_order:
  "steps (apply_restart_changes g w oracle_home db_name db_unique_name sid instance_name israc
            archcomp change_restart_sql)
     ([stop_request g oracle_home db_name db_unique_name sid,
      mount_request g oracle_home db_name db_unique_name sid instance_name israc,
      ReqSleep 10,
      connect_request g w] @
     concat (map (\<lambda>sql. [ReqSql sql,
                          stop_request g oracle_home db_name db_unique_name sid,
                          start_request g oracle_home db_name db_unique_name sid])
               change_restart_sql))
     anything \<and>
   (archivelog d \<and> \<not> flashback d \<and>
    index2 (log_check_rows ob) 0 0 = Inr (Some ''NOARCHIVELOG'') \<and>
    index2 (log_check_rows ob) 0 1 = Inr (Some (flcomp_of (force_logging d))) \<and>
    index2 (log_check_rows ob) 0 2 = Inr (Some ''NO'') \<and>
    index (def_tbs_type ob) 0 = Inr (Some (default_tablespace_type d)) \<and>
    (case default_tablespace d of
       None \<Rightarrow> True | Some t \<Rightarrow> index (def_tbs ob) 0 = Inr (Some t)) \<and>
    (case default_temp_tablespace d of
       None \<Rightarrow> True | Some t \<Rightarrow> index (def_temp_tbs ob) 0 = Inr (Some t)) \<longrightarrow>
    plan_changes d ob = Inr ([''alter database archivelog''], []))"
proof
  show "steps (apply_restart_changes g w oracle_home db_name db_unique_name sid instance_name israc
            archcomp change_restart_sql)
     ([stop_request g oracle_home db_name db_unique_name sid,
      mount_request g oracle_home db_name db_unique_name sid instance_name israc,
      ReqSleep 10,
      connect_request g w] @
     concat (map (\<lambda>sql. [ReqSql sql,
                          stop_request g oracle_home db_name db_unique_name sid,
                          start_request g oracle_home db_name db_unique_name sid])
               change_restart_sql))
     anything"
    using steps_apply_restart_changes [of g w oracle_home db_name db_unique_name sid
        instance_name israc archcomp change_restart_sql]
    by (simp add: restart_requests_def)
  show "archivelog d \<and> \<not> flashback d \<and>
    index2 (log_check_rows ob) 0 0 = Inr (Some ''NOARCHIVELOG'') \<and>
    index2 (log_check_rows ob) 0 1 = Inr (Some (flcomp_of (force_logging d))) \<and>
    index2 (log_check_rows ob) 0 2 = Inr (Some ''NO'') \<and>
    index (def_tbs_type ob) 0 = Inr (Some (default_tablespace_type d)) \<and>
    (case default_tablespace d of
       None \<Rightarrow> True | Some t \<Rightarrow> index (def_tbs ob) 0 = Inr (Some t)) \<and>
    (case default_temp_tablespace d of
       None \<Rightarrow> True | Some t \<Rightarrow> index (def_temp_tbs ob) 0 = Inr (Some t)) \<longrightarrow>
    plan_changes d ob = Inr ([''alter database archivelog''], [])"
    by (auto simp: plan_changes_def then_e_def archcomp_of_def archsql_of_def fbcomp_of_def
        alterdb_sql_def split: option.splits)
qed

theorem restart_cycle_order_witness:
  "archivelog (declare_logging True False False) \<and>
   \<not> flashback (declare_logging True False False) \<and>
   index2 (log_check_rows
     (observed_of ''smallfile'' ''temp'' ''users'' ''NO'' ''orcl'' ''NOARCHIVELOG'' ''NO'' ''NO''))
     0 0 = Inr (Some ''NOARCHIVELOG'') \<and>
   index2 (log_check_rows
     (observed_of ''smallfile'' ''temp'' ''users'' ''NO'' ''orcl'' ''NOARCHIVELOG'' ''NO'' ''NO''))
     0 1 = Inr (Some (flcomp_of (force_logging (declare_logging True False False)))) \<and>
   index2 (log_check_rows
     (observed_of ''smallfile'' ''temp'' ''users'' ''NO'' ''orcl'' ''NOARCHIVELOG'' ''NO'' ''NO''))
     0 2 = Inr (Some ''NO'') \<and>
   index (def_tbs_type
     (observed_of ''smallfile'' ''temp'' ''users'' ''NO'' ''orcl'' ''NOARCHIVELOG'' ''NO'' ''NO''))
     0 = Inr (Some (default_tablespace_type (declare_logging True False False))) \<and>
   default_tablespace (declare_logging True False False) = None \<and>
   default_temp_tablespace (declare_logging True False False) = None \<and>
   plan_changes (declare_logging True False False)
     (observed_of ''smallfile'' ''temp'' ''users'' ''NO'' ''orcl'' ''NOARCHIVELOG'' ''NO'' ''NO'') =
     Inr ([''alter database archivelog''], []) \<and>
   steps (apply_restart_changes (ctx0 False False)
            (host None all_ok (db_queries [''smallfile'', ''temp'', ''users''] ''NO'' ''orcl''
        ''NOARCHIVELOG'' ''NO'' ''NO''))
            ''/opt/db/a'' ''orcl'' None None (Some ''orcl'') False ''ARCHIVELOG''
            [''alter database archivelog''])
     [ReqSqlplus ''orcl'' ''/opt/db/a/bin/sqlplus'' shutdown_sql,
      ReqSqlplus ''orcl'' ''/opt/db/a/bin/sqlplus'' startup_mount_sql,
      ReqSleep 10,
      ReqConnect ''dbhost:1521/orcl'',
      ReqSql ''alter database archivelog'',
      ReqSqlplus ''orcl'' ''/opt/db/a/bin/sqlplus'' shutdown_sql,
      ReqSqlplus ''orcl'' ''/opt/db/a/bin/sqlplus'' startup_sql]
     anything \<and>
   ensure_db_state (ctx0 False False)
     (host None all_ok (db_queries [''smallfile'', ''temp'', ''users''] ''NO'' ''orcl''
        ''NOARCHIVELOG'' ''NO'' ''NO''))
     ''/opt/db/a'' ''orcl'' None None (declare_logging True False False) [] =
   (Inl (ExitJson (intended_state_msg ''orcl'' (declare_logging True False False)) True),
    [Connect ''dbhost:1521/orcl'' None,
     SqlGet propsql (Inr [[Some ''smallfile''], [Some ''temp''], [Some ''users'']]),
     SqlGet israc_sql (Inr [[Some ''NO'', Some ''orcl'', Some ''dbhost'']]),
     SqlGet log_check_sql (Inr [[Some ''NOARCHIVELOG'', Some ''NO'', Some ''NO'']]),
     Sqlplus ''orcl'' ''/opt/db/a/bin/sqlplus'' shutdown_sql (0, [], []),
     Sqlplus ''orcl'' ''/opt/db/a/bin/sqlplus'' startup_mount_sql (0, [], []),
     Sleep 10,
     Connect ''dbhost:1521/orcl'' None,
     Sql ''alter database archivelog'' None,
     Sqlplus ''orcl'' ''/opt/db/a/bin/sqlplus'' shutdown_sql (0, [], []),
     Sqlplus ''orcl'' ''/opt/db/a/bin/sqlplus'' startup_sql (0, [], [])])"
proof -
  have on: "archivelog (declare_logging True False False)"
    by (simp add: declare_logging_def)
  have off: "\<not> flashback (declare_logging True False False)"
    by (simp add: declare_logging_def)
  have live1: "index2 (log_check_rows
     (observed_of ''smallfile'' ''temp'' ''users'' ''NO'' ''orcl'' ''NOARCHIVELOG'' ''NO'' ''NO''))
     0 0 = Inr (Some ''NOARCHIVELOG'')"
    by (simp add: observed_cells)
  have live2: "index2 (log_check_rows
     (observed_of ''smallfile'' ''temp'' ''users'' ''NO'' ''orcl'' ''NOARCHIVELOG'' ''NO'' ''NO''))
     0 1 = Inr (Some (flcomp_of (force_logging (declare_logging True False False))))"
    by (simp add: observed_cells declare_logging_def flcomp_of_def)
  have live3: "index2 (log_check_rows
     (observed_of ''smallfile'' ''temp'' ''users'' ''NO'' ''orcl'' ''NOARCHIVELOG'' ''NO'' ''NO''))
     0 2 = Inr (Some ''NO'')"
    by (simp add: observed_cells)
  have tbs_type: "index (def_tbs_type
     (observed_of ''smallfile'' ''temp'' ''users'' ''NO'' ''orcl'' ''NOARCHIVELOG'' ''NO'' ''NO''))
     0 = Inr (Some (default_tablespace_type (declare_logging True False False)))"
    by (simp add: observed_cells declare_logging_def)
  have tbs: "default_tablespace (declare_logging True False False) = None"
    by (simp add: declare_logging_def)
  have temp: "default_temp_tablespace (declare_logging True False False) = None"
    by (simp add: declare_logging_def)
  note claim = restart_cycle_order
    [where g = "(ctx0 False False)"
       and w = "(host None all_ok (db_queries [''smallfile'', ''temp'', ''users''] ''NO'' ''orcl''
        ''NOARCHIVELOG'' ''NO'' ''NO''))"
       and oracle_home = "''/opt/db/a''" and db_name = "''orcl''" and db_unique_name = None
       and sid = None and instance_name = "Some ''orcl''" and israc = False
       and archcomp = "''ARCHIVELOG''" and change_restart_sql = "[''alter database archivelog'']"
       and d = "(declare_logging True False False)"
       and ob = "(observed_of ''smallfile'' ''temp'' ''users'' ''NO'' ''orcl'' ''NOARCHIVELOG'' ''NO'' ''NO'')"]
  have plan: "plan_changes (declare_logging True False False)
     (observed_of ''smallfile'' ''temp'' ''users'' ''NO'' ''orcl'' ''NOARCHIVELOG'' ''NO'' ''NO'') =
     Inr ([''alter database archivelog''], [])"
    using conjunct2 [OF claim] on off live1 live2 live3 tbs_type tbs temp by simp
  have cycle: "steps (apply_restart_changes (ctx0 False False)
            (host None all_ok (db_queries [''smallfile'', ''temp'', ''users''] ''NO'' ''orcl''
        ''NOARCHIVELOG'' ''NO'' ''NO''))
            ''/opt/db/a'' ''orcl'' None None (Some ''orcl'') False ''ARCHIVELOG''
            [''alter database archivelog''])
     [ReqSqlplus ''orcl'' ''/opt/db/a/bin/sqlplus'' shutdown_sql,
      ReqSqlplus ''orcl'' ''/opt/db/a/bin/sqlplus'' startup_mount_sql,
      ReqSleep 10,
      ReqConnect ''dbhost:1521/orcl'',
      ReqSql ''alter database archivelog'',
      ReqSqlplus ''orcl'' ''/opt/db/a/bin/sqlplus'' shutdown_sql,
      ReqSqlplus ''orcl'' ''/opt/db/a/bin/sqlplus'' startup_sql]
     anything"
    using conjunct1 [OF claim]
    by (simp add: stop_request_def mount_request_def start_request_def connect_request_def
        oracle_sid_of_def ctx0_def host_def truthy_def)
  have run: "ensure_db_state (ctx0 False False)
     (host None all_ok (db_queries [''smallfile'', ''temp'', ''users''] ''NO'' ''orcl''
        ''NOARCHIVELOG'' ''NO'' ''NO''))
     ''/opt/db/a'' ''orcl'' None None (declare_logging True False False) [] =
   (Inl (ExitJson (intended_state_msg ''orcl'' (declare_logging True False False)) True),
    [Connect ''dbhost:1521/orcl'' None,
     SqlGet propsql (Inr [[Some ''smallfile''], [Some ''temp''], [Some ''users'']]),
     SqlGet israc_sql (Inr [[Some ''NO'', Some ''orcl'', Some ''dbhost'']]),
     SqlGet log_check_sql (Inr [[Some ''NOARCHIVELOG'', Some ''NO'', Some ''NO'']]),
     Sqlplus ''orcl'' ''/opt/db/a/bin/sqlplus'' shutdown_sql (0, [], []),
     Sqlplus ''orcl'' ''/opt/db/a/bin/sqlplus'' startup_mount_sql (0, [], []),
     Sleep 10,
     Connect ''dbhost:1521/orcl'' None,
     Sql ''alter database archivelog'' None,
     Sqlplus ''orcl'' ''/opt/db/a/bin/sqlplus'' shutdown_sql (0, [], []),
     Sqlplus ''orcl'' ''/opt/db/a/bin/sqlplus'' startup_sql (0, [], [])])"
    by (rule pass_archivelog_on)
  from on off live1 live2 live3 tbs_type tbs temp plan cycle run
  show ?thesis by (intro conjI)
qed

text \<open>
  C4 as stated fails on the code: the claim has the engine read the observed properties
  again after the restart batch, before it decides on the immediate changes. A pass that
  turns archivelog and flashback on issues its three queries, then the restart batch, then
  a connection and \<^verbatim>\<open>alter database flashback on\<close>: no query stands between the restart
  batch and the immediate batch.
\<close>

theorem no_read_after_restart_batch:
  "map request_of
     (snd (ensure_db_state (ctx0 False False)
        (host None all_ok (db_queries [''smallfile'', ''temp'', ''users''] ''NO'' ''orcl''
        ''NOARCHIVELOG'' ''NO'' ''NO''))
        ''/opt/db/a'' ''orcl'' None None (declare_logging True False True) [])) =
     [ReqConnect ''dbhost:1521/orcl'', ReqGet propsql, ReqGet israc_sql, ReqGet log_check_sql,
      ReqSqlplus ''orcl'' ''/opt/db/a/bin/sqlplus'' shutdown_sql,
      ReqSqlplus ''orcl'' ''/opt/db/a/bin/sqlplus'' startup_mount_sql,
      ReqSleep 10,
      ReqConnect ''dbhost:1521/orcl'',
      ReqSql ''alter database archivelog'',
      ReqSqlplus ''orcl'' ''/opt/db/a/bin/sqlplus'' shutdown_sql,
      ReqSqlplus ''orcl'' ''/opt/db/a/bin/sqlplus'' startup_sql,
      ReqConnect ''dbhost:1521/orcl'',
      ReqSql ''alter database flashback on''] \<and>
   fst (ensure_db_state (ctx0 False False)
        (host None all_ok (db_queries [''smallfile'', ''temp'', ''users''] ''NO'' ''orcl''
        ''NOARCHIVELOG'' ''NO'' ''NO''))
        ''/opt/db/a'' ''orcl'' None None (declare_logging True False True) []) =
     Inl (ExitJson (intended_state_msg ''orcl'' (declare_logging True False True)) True)"
  by (simp add: pass_both_on)

text \<open>
  C4, amended. A pass reads the observed properties once, by the three queries at its
  start, and issues no further query. Both batches are the ones planned from that
  observation: when the plan computed from it is \<open>(change_restart_sql, change_db_sql)\<close>,
  the requests after the reads are a prefix of the batches of exactly these statements, in
  the order the test of line 586 gives on the same observation, and all of them when the
  pass ends with \<^verbatim>\<open>exit_json\<close>; when the plan cannot be computed (a missing row or
  column) the pass ends there with the exception and asks nothing more.
\<close>

theorem observation_read_once:
  assumes obs: "observe g w h = (Inr (ob, instance_name, israc), h1)"
  shows "(\<exists>os. h1 = h @ os \<and> map request_of os = observe_requests g w) \<and>
         (\<exists>es. snd (ensure_db_state g w oracle_home db_name db_unique_name sid d h) = h1 @ es \<and>
               filter is_get (map request_of es) = [] \<and>
               (\<forall>e. plan_changes d ob = Inl e \<longrightarrow>
                  es = [] \<and> fst (ensure_db_state g w oracle_home db_name db_unique_name sid d h) = Inl e) \<and>
               (\<forall>change_restart_sql change_db_sql.
                  plan_changes d ob = Inr (change_restart_sql, change_db_sql) \<longrightarrow>
                  (\<exists>first. flashback_first d ob = Inr first \<and>
                     prefix (map request_of es)
                       (batch_requests g w oracle_home db_name db_unique_name sid instance_name israc
                          first change_restart_sql change_db_sql) \<and>
                     (\<exists>e. fst (ensure_db_state g w oracle_home db_name db_unique_name sid d h) = Inl e \<and>
                        (is_exit_json e \<longrightarrow>
                           map request_of es =
                             batch_requests g w oracle_home db_name db_unique_name sid instance_name israc
                               first change_restart_sql change_db_sql)))))"
proof
  show "\<exists>os. h1 = h @ os \<and> map request_of os = observe_requests g w"
    by (rule observe_requests_issued [OF obs])
  show "\<exists>es. snd (ensure_db_state g w oracle_home db_name db_unique_name sid d h) = h1 @ es \<and>
               filter is_get (map request_of es) = [] \<and>
               (\<forall>e. plan_changes d ob = Inl e \<longrightarrow>
                  es = [] \<and> fst (ensure_db_state g w oracle_home db_name db_unique_name sid d h) = Inl e) \<and>
               (\<forall>change_restart_sql change_db_sql.
                  plan_changes d ob = Inr (change_restart_sql, change_db_sql) \<longrightarrow>
                  (\<exists>first. flashback_first d ob = Inr first \<and>
                     prefix (map request_of es)
                       (batch_requests g w oracle_home db_name db_unique_name sid instance_name israc
                          first change_restart_sql change_db_sql) \<and>
                     (\<exists>e. fst (ensure_db_state g w oracle_home db_name db_unique_name sid d h) = Inl e \<and>
                        (is_exit_json e \<longrightarrow>
                           map request_of es =
                             batch_requests g w oracle_home db_name db_unique_name sid instance_name israc
                               first change_restart_sql change_db_sql))))"
  proof (cases "plan_changes d ob")
    case (Inl e)
    then have "ensure_db_state g w oracle_home db_name db_unique_name sid d h = (Inl e, h1)"
      using obs by (simp add: ensure_db_state_def and_then_def lift_def)
    then show ?thesis using Inl by (intro exI [of _ "[]"]) simp
  next
    case (Inr p)
    obtain crs cds where p: "p = (crs, cds)" by (cases p)
    from plan_gives_cells [OF Inr] obtain log_mode flashback_on
      where cells: "index2 (log_check_rows ob) 0 0 = Inr log_mode"
                   "index2 (log_check_rows ob) 0 2 = Inr flashback_on"
      by blast
    let ?first = "log_mode = Some ''ARCHIVELOG'' \<and> flashback_on = Some ''YES'' \<and>
                  \<not> archivelog d \<and> \<not> flashback d"
    have first: "flashback_first d ob = Inr ?first"
      by (rule flashback_first_value [OF cells])
    have plan: "plan_changes d ob = Inr (crs, cds)" using Inr p by simp
    from ensure_db_state_requests [OF obs plan first, of oracle_home db_name db_unique_name sid]
    obtain es e where es:
      "snd (ensure_db_state g w oracle_home db_name db_unique_name sid d h) = h1 @ es"
      "prefix (map request_of es)
         (batch_requests g w oracle_home db_name db_unique_name sid instance_name israc
            ?first crs cds)"
      "fst (ensure_db_state g w oracle_home db_name db_unique_name sid d h) = Inl e"
      "is_exit_json e \<longrightarrow>
         map request_of es =
           batch_requests g w oracle_home db_name db_unique_name sid instance_name israc
             ?first crs cds"
      by blast
    have quiet: "filter is_get (map request_of es) = []"
      by (rule filter_prefix_nil [OF es(2) no_get_in_batches])
    show ?thesis
      using es quiet first plan by (intro exI [of _ es]) auto
  qed
qed

theorem observation_read_once_witness:
  "observe (ctx0 False False)
     (host None all_ok (db_queries [''smallfile'', ''temp'', ''users''] ''NO'' ''orcl''
        ''NOARCHIVELOG'' ''NO'' ''NO'')) [] =
     (Inr ((observed_of ''smallfile'' ''temp'' ''users'' ''NO'' ''orcl'' ''NOARCHIVELOG'' ''NO'' ''NO''),
           Some ''orcl'', False),
      [Connect ''dbhost:1521/orcl'' None,
       SqlGet propsql (Inr [[Some ''smallfile''], [Some ''temp''], [Some ''users'']]),
       SqlGet israc_sql (Inr [[Some ''NO'', Some ''orcl'', Some ''dbhost'']]),
       SqlGet log_check_sql (Inr [[Some ''NOARCHIVELOG'', Some ''NO'', Some ''NO'']])]) \<and>
   plan_changes (declare_logging True False True)
     (observed_of ''smallfile'' ''temp'' ''users'' ''NO'' ''orcl'' ''NOARCHIVELOG'' ''NO'' ''NO'') =
     Inr ([''alter database archivelog''], [''alter database flashback on'']) \<and>
   flashback_first (declare_logging True False True)
     (observed_of ''smallfile'' ''temp'' ''users'' ''NO'' ''orcl'' ''NOARCHIVELOG'' ''NO'' ''NO'') = Inr False \<and>
   (\<exists>es. snd (ensure_db_state (ctx0 False False)
            (host None all_ok (db_queries [''smallfile'', ''temp'', ''users''] ''NO'' ''orcl''
        ''NOARCHIVELOG'' ''NO'' ''NO''))
            ''/opt/db/a'' ''orcl'' None None (declare_logging True False True) []) =
          [Connect ''dbhost:1521/orcl'' None,
       SqlGet propsql (Inr [[Some ''smallfile''], [Some ''temp''], [Some ''users'']]),
       SqlGet israc_sql (Inr [[Some ''NO'', Some ''orcl'', Some ''dbhost'']]),
       SqlGet log_check_sql (Inr [[Some ''NOARCHIVELOG'', Some ''NO'', Some ''NO'']])] @ es \<and>
        filter is_get (map request_of es) = [] \<and>
        prefix (map request_of es)
          (restart_requests (ctx0 False False)
             (host None all_ok (db_queries [''smallfile'', ''temp'', ''users''] ''NO'' ''orcl''
        ''NOARCHIVELOG'' ''NO'' ''NO''))
             ''/opt/db/a'' ''orcl'' None None (Some ''orcl'') False
             [''alter database archivelog''] @
           norestart_requests (ctx0 False False)
             (host None all_ok (db_queries [''smallfile'', ''temp'', ''users''] ''NO'' ''orcl''
        ''NOARCHIVELOG'' ''NO'' ''NO''))
             [''alter database flashback on''])) \<and>
   map request_of
     (snd (ensure_db_state (ctx0 False False)
        (host None all_ok (db_queries [''smallfile'', ''temp'', ''users''] ''NO'' ''orcl''
        ''NOARCHIVELOG'' ''NO'' ''NO''))
        ''/opt/db/a'' ''orcl'' None None (declare_logging True False True) [])) =
     [ReqConnect ''dbhost:1521/orcl'', ReqGet propsql, ReqGet israc_sql, ReqGet log_check_sql,
      ReqSqlplus ''orcl'' ''/opt/db/a/bin/sqlplus'' shutdown_sql,
      ReqSqlplus ''orcl'' ''/opt/db/a/bin/sqlplus'' startup_mount_sql,
      ReqSleep 10,
      ReqConnect ''dbhost:1521/orcl'',
      ReqSql ''alter database archivelog'',
      ReqSqlplus ''orcl'' ''/opt/db/a/bin/sqlplus'' shutdown_sql,
      ReqSqlplus ''orcl'' ''/opt/db/a/bin/sqlplus'' startup_sql,
      ReqConnect ''dbhost:1521/orcl'',
      ReqSql ''alter database flashback on'']"
proof -
  have obs: "observe (ctx0 False False)
     (host None all_ok (db_queries [''smallfile'', ''temp'', ''users''] ''NO'' ''orcl''
        ''NOARCHIVELOG'' ''NO'' ''NO'')) [] =
     (Inr ((observed_of ''smallfile'' ''temp'' ''users'' ''NO'' ''orcl'' ''NOARCHIVELOG'' ''NO'' ''NO''),
           Some ''orcl'', False),
      [Connect ''dbhost:1521/orcl'' None,
       SqlGet propsql (Inr [[Some ''smallfile''], [Some ''temp''], [Some ''users'']]),
       SqlGet israc_sql (Inr [[Some ''NO'', Some ''orcl'', Some ''dbhost'']]),
       SqlGet log_check_sql (Inr [[Some ''NOARCHIVELOG'', Some ''NO'', Some ''NO'']])])"
    by (simp add: observe_host')
  have plan: "plan_changes (declare_logging True False True)
     (observed_of ''smallfile'' ''temp'' ''users'' ''NO'' ''orcl'' ''NOARCHIVELOG'' ''NO'' ''NO'') =
     Inr ([''alter database archivelog''], [''alter database flashback on''])"
    by (simp add: plan_host archcomp_of_def archsql_of_def flcomp_of_def fbcomp_of_def
        fbsql_of_def alterdb_sql_def)
  have first: "flashback_first (declare_logging True False True)
     (observed_of ''smallfile'' ''temp'' ''users'' ''NO'' ''orcl'' ''NOARCHIVELOG'' ''NO'' ''NO'') = Inr False"
    by (simp add: flashback_first_def then_e_def observed_cells declare_logging_fields)
  from observation_read_once [OF obs, of "''/opt/db/a''" "''orcl''" None None
      "declare_logging True False True"]
  obtain es where es:
    "snd (ensure_db_state (ctx0 False False)
            (host None all_ok (db_queries [''smallfile'', ''temp'', ''users''] ''NO'' ''orcl''
        ''NOARCHIVELOG'' ''NO'' ''NO''))
            ''/opt/db/a'' ''orcl'' None None (declare_logging True False True) []) =
       [Connect ''dbhost:1521/orcl'' None,
       SqlGet propsql (Inr [[Some ''smallfile''], [Some ''temp''], [Some ''users'']]),
       SqlGet israc_sql (Inr [[Some ''NO'', Some ''orcl'', Some ''dbhost'']]),
       SqlGet log_check_sql (Inr [[Some ''NOARCHIVELOG'', Some ''NO'', Some ''NO'']])] @ es"
    "filter is_get (map request_of es) = []"
    and planned: "\<forall>change_restart_sql change_db_sql.
       plan_changes (declare_logging True False True)
         (observed_of ''smallfile'' ''temp'' ''users'' ''NO'' ''orcl'' ''NOARCHIVELOG'' ''NO'' ''NO'') =
         Inr (change_restart_sql, change_db_sql) \<longrightarrow>
       (\<exists>first. flashback_first (declare_logging True False True)
           (observed_of ''smallfile'' ''temp'' ''users'' ''NO'' ''orcl'' ''NOARCHIVELOG'' ''NO'' ''NO'') = Inr first \<and>
          prefix (map request_of es)
            (batch_requests (ctx0 False False)
               (host None all_ok (db_queries [''smallfile'', ''temp'', ''users''] ''NO'' ''orcl''
        ''NOARCHIVELOG'' ''NO'' ''NO''))
               ''/opt/db/a'' ''orcl'' None None (Some ''orcl'') False
               first change_restart_sql change_db_sql))"
    by blast
  from planned plan first
  have "prefix (map request_of es)
          (batch_requests (ctx0 False False)
             (host None all_ok (db_queries [''smallfile'', ''temp'', ''users''] ''NO'' ''orcl''
        ''NOARCHIVELOG'' ''NO'' ''NO''))
             ''/opt/db/a'' ''orcl'' None None (Some ''orcl'') False False
             [''alter database archivelog''] [''alter database flashback on''])"
    by auto
  then have batches: "prefix (map request_of es)
          (restart_requests (ctx0 False False)
             (host None all_ok (db_queries [''smallfile'', ''temp'', ''users''] ''NO'' ''orcl''
        ''NOARCHIVELOG'' ''NO'' ''NO''))
             ''/opt/db/a'' ''orcl'' None None (Some ''orcl'') False
             [''alter database archivelog''] @
           norestart_requests (ctx0 False False)
             (host None all_ok (db_queries [''smallfile'', ''temp'', ''users''] ''NO'' ''orcl''
        ''NOARCHIVELOG'' ''NO'' ''NO''))
             [''alter database flashback on''])"
    by (simp add: batch_requests_def)
  have once: "(\<exists>es. snd (ensure_db_state (ctx0 False False)
            (host None all_ok (db_queries [''smallfile'', ''temp'', ''users''] ''NO'' ''orcl''
        ''NOARCHIVELOG'' ''NO'' ''NO''))
            ''/opt/db/a'' ''orcl'' None None (declare_logging True False True) []) =
          [Connect ''dbhost:1521/orcl'' None,
       SqlGet propsql (Inr [[Some ''smallfile''], [Some ''temp''], [Some ''users'']]),
       SqlGet israc_sql (Inr [[Some ''NO'', Some ''orcl'', Some ''dbhost'']]),
       SqlGet log_check_sql (Inr [[Some ''NOARCHIVELOG'', Some ''NO'', Some ''NO'']])] @ es \<and>
        filter is_get (map request_of es) = [] \<and>
        prefix (map request_of es)
          (restart_requests (ctx0 False False)
             (host None all_ok (db_queries [''smallfile'', ''temp'', ''users''] ''NO'' ''orcl''
        ''NOARCHIVELOG'' ''NO'' ''NO''))
             ''/opt/db/a'' ''orcl'' None None (Some ''orcl'') False
             [''alter database archivelog''] @
           norestart_requests (ctx0 False False)
             (host None all_ok (db_queries [''smallfile'', ''temp'', ''users''] ''NO'' ''orcl''
        ''NOARCHIVELOG'' ''NO'' ''NO''))
             [''alter database flashback on'']))"
    using es batches by blast
  have run: "map request_of
     (snd (ensure_db_state (ctx0 False False)
        (host None all_ok (db_queries [''smallfile'', ''temp'', ''users''] ''NO'' ''orcl''
        ''NOARCHIVELOG'' ''NO'' ''NO''))
        ''/opt/db/a'' ''orcl'' None None (declare_logging True False True) [])) =
     [ReqConnect ''dbhost:1521/orcl'', ReqGet propsql, ReqGet israc_sql, ReqGet log_check_sql,
      ReqSqlplus ''orcl'' ''/opt/db/a/bin/sqlplus'' shutdown_sql,
      ReqSqlplus ''orcl'' ''/opt/db/a/bin/sqlplus'' startup_mount_sql,
      ReqSleep 10,
      ReqConnect ''dbhost:1521/orcl'',
      ReqSql ''alter database archivelog'',
      ReqSqlplus ''orcl'' ''/opt/db/a/bin/sqlplus'' shutdown_sql,
      ReqSqlplus ''orcl'' ''/opt/db/a/bin/sqlplus'' startup_sql,
      ReqConnect ''dbhost:1521/orcl'',
      ReqSql ''alter database flashback on'']"
    by (simp add: pass_both_on)
  from obs plan first once run show ?thesis by (intro conjI)
qed




text \<open>
  C6 as stated fails on the code: the claim resolves the identifier to the sid only under
  a multi-instance topology, else to the name. Under standalone mode, with the sid
  \<^verbatim>\<open>orcl1\<close> given for the database \<^verbatim>\<open>orcl\<close> and a single-instance topology
  (\<^verbatim>\<open>parallel\<close> is \<^verbatim>\<open>NO\<close>), the removal command is run on \<^verbatim>\<open>orcl1\<close>, not on
  \<^verbatim>\<open>orcl\<close>.
\<close>

theorem standalone_removal_uses_sid:
  "main_absent (ctx0 False False)
     (host (Some [''orcl1:/opt/db/a:N\<newline>'']) all_ok
        (db_queries [''smallfile'', ''temp'', ''users''] ''NO'' ''orcl1'' ''NOARCHIVELOG'' ''NO'' ''NO''))
     ''/opt/db/a'' ''orcl'' (Some ''orcl1'') None (Some ''secret'') [] =
     (Inl (ExitJson ''Successfully removed database orcl'' True),
      [Connect ''dbhost:1521/orcl'' None,
       SqlGet israc_sql (Inr [[Some ''NO'', Some ''orcl1'', Some ''dbhost'']]),
       RunCommand
         ''/opt/db/a/bin/dbca -deleteDatabase -silent -sourceDB orcl1 -sysDBAUserName sys -sysDBAPassword secret''
         (0, [], [])])"
  by (simp add: main_absent_def and_then_def located_by_sid is_true_def remove_db_host
      halt_def removal_identifier_def delete_command_def str_opt_def)

text \<open>
  C6, amended. In a removal pass (the locator finds the instance, target absent) whose
  \<^verbatim>\<open>dbca -deleteDatabase\<close> command succeeds, the identifier handed to the command is:
  under cluster-managed mode the unique name when one is given, else the sid when one is
  given and the topology is single-instance (\<^verbatim>\<open>parallel\<close> is \<^verbatim>\<open>NO\<close>), else the name;
  under standalone mode the sid when one is given, else the name. The pass ends with
  \<^verbatim>\<open>exit_json\<close>, \<^verbatim>\<open>changed=True\<close>, the removal command being its last request.
\<close>

theorem removal_identifier_resolution:
  assumes located: "check_db_exists g w oracle_home db_name sid db_unique_name h = (Inr found, h1)"
      and found: "is_true found"
      and connected: "getconn g w h1 = (Inr (), h2)"
      and queried: "execute_sql_get w israc_sql h2 = (Inr rows, h3)"
      and topology: "index2 rows 0 0 = Inr par"
      and removed:
        "run_command w h3
           (delete_command oracle_home
              (removal_identifier (gimanaged g) db_name sid db_unique_name par) sys_password) =
         (0, stdout, stderr)"
  shows "remove_db_target g db_name sid db_unique_name rows =
           Inr (removal_identifier (gimanaged g) db_name sid db_unique_name par) \<and>
         main_absent g w oracle_home db_name sid db_unique_name sys_password h =
           (Inl (ExitJson
                   (if output' g = ''short'' then ''Successfully removed database '' @ db_name
                    else ''STDOUT: '' @ stdout @ '',  COMMAND: '' @
                         delete_command oracle_home
                           (removal_identifier (gimanaged g) db_name sid db_unique_name par)
                           sys_password)
                   True),
            h3 @ [RunCommand
                    (delete_command oracle_home
                       (removal_identifier (gimanaged g) db_name sid db_unique_name par)
                       sys_password)
                    (0, stdout, stderr)])"
proof
  show target: "remove_db_target g db_name sid db_unique_name rows =
           Inr (removal_identifier (gimanaged g) db_name sid db_unique_name par)"
    by (rule remove_db_target_in_words [OF topology])
  show "main_absent g w oracle_home db_name sid db_unique_name sys_password h =
           (Inl (ExitJson
                   (if output' g = ''short'' then ''Successfully removed database '' @ db_name
                    else ''STDOUT: '' @ stdout @ '',  COMMAND: '' @
                         delete_command oracle_home
                           (removal_identifier (gimanaged g) db_name sid db_unique_name par)
                           sys_password)
                   True),
            h3 @ [RunCommand
                    (delete_command oracle_home
                       (removal_identifier (gimanaged g) db_name sid db_unique_name par)
                       sys_password)
                    (0, stdout, stderr)])"
    using located found connected queried target removed
    by (simp add: main_absent_def remove_db_def and_then_def lift_def module_run_command_def
        Let_def halt_def ret_def delete_command_def)
qed

theorem removal_identifier_resolution_witness:
  "check_db_exists (ctx0 True False)
     (host None all_ok
        (db_queries [''smallfile'', ''temp'', ''users''] ''YES'' ''orcl1'' ''NOARCHIVELOG'' ''NO'' ''NO''))
     ''/opt/db/a'' ''orcl'' (Some ''orcl1'') None [] =
     (Inr (Some True), [RunCommand ''/opt/db/a/bin/srvctl config database -d orcl '' (0, [], [])]) \<and>
   is_true (Some True) \<and>
   getconn (ctx0 True False)
     (host None all_ok
        (db_queries [''smallfile'', ''temp'', ''users''] ''YES'' ''orcl1'' ''NOARCHIVELOG'' ''NO'' ''NO''))
     [RunCommand ''/opt/db/a/bin/srvctl config database -d orcl '' (0, [], [])] =
     (Inr (), [RunCommand ''/opt/db/a/bin/srvctl config database -d orcl '' (0, [], []),
               Connect ''dbhost:1521/orcl'' None]) \<and>
   execute_sql_get
     (host None all_ok
        (db_queries [''smallfile'', ''temp'', ''users''] ''YES'' ''orcl1'' ''NOARCHIVELOG'' ''NO'' ''NO''))
     israc_sql
     [RunCommand ''/opt/db/a/bin/srvctl config database -d orcl '' (0, [], []),
      Connect ''dbhost:1521/orcl'' None] =
     (Inr [[Some ''YES'', Some ''orcl1'', Some ''dbhost'']],
      [RunCommand ''/opt/db/a/bin/srvctl config database -d orcl '' (0, [], []),
       Connect ''dbhost:1521/orcl'' None,
       SqlGet israc_sql (Inr [[Some ''YES'', Some ''orcl1'', Some ''dbhost'']])]) \<and>
   index2 [[Some ''YES'', Some ''orcl1'', Some ''dbhost'']] 0 0 = Inr (Some ''YES'') \<and>
   run_command
     (host None all_ok
        (db_queries [''smallfile'', ''temp'', ''users''] ''YES'' ''orcl1'' ''NOARCHIVELOG'' ''NO'' ''NO''))
     [RunCommand ''/opt/db/a/bin/srvctl config database -d orcl '' (0, [], []),
      Connect ''dbhost:1521/orcl'' None,
      SqlGet israc_sql (Inr [[Some ''YES'', Some ''orcl1'', Some ''dbhost'']])]
     (delete_command ''/opt/db/a''
        (removal_identifier (gimanaged (ctx0 True False)) ''orcl'' (Some ''orcl1'') None (Some ''YES''))
        (Some ''secret'')) = (0, [], []) \<and>
   removal_identifier (gimanaged (ctx0 True False)) ''orcl'' (Some ''orcl1'') None (Some ''YES'') = ''orcl'' \<and>
   main_absent (ctx0 True False)
     (host None all_ok
        (db_queries [''smallfile'', ''temp'', ''users''] ''YES'' ''orcl1'' ''NOARCHIVELOG'' ''NO'' ''NO''))
     ''/opt/db/a'' ''orcl'' (Some ''orcl1'') None (Some ''secret'') [] =
     (Inl (ExitJson ''Successfully removed database orcl'' True),
      [RunCommand ''/opt/db/a/bin/srvctl config database -d orcl '' (0, [], []),
       Connect ''dbhost:1521/orcl'' None,
       SqlGet israc_sql (Inr [[Some ''YES'', Some ''orcl1'', Some ''dbhost'']]),
       RunCommand
         ''/opt/db/a/bin/dbca -deleteDatabase -silent -sourceDB orcl -sysDBAUserName sys -sysDBAPassword secret''
         (0, [], [])])"
proof -
  have located: "check_db_exists (ctx0 True False)
     (host None all_ok
        (db_queries [''smallfile'', ''temp'', ''users''] ''YES'' ''orcl1'' ''NOARCHIVELOG'' ''NO'' ''NO''))
     ''/opt/db/a'' ''orcl'' (Some ''orcl1'') None [] =
     (Inr (Some True), [RunCommand ''/opt/db/a/bin/srvctl config database -d orcl '' (0, [], [])])"
    by (simp add: check_db_exists_def ctx0_fields module_run_command_host all_ok_def
        and_then_def ret_def Let_def)
  have found: "is_true (Some True)"
    by (simp add: is_true_def)
  have connected: "getconn (ctx0 True False)
     (host None all_ok
        (db_queries [''smallfile'', ''temp'', ''users''] ''YES'' ''orcl1'' ''NOARCHIVELOG'' ''NO'' ''NO''))
     [RunCommand ''/opt/db/a/bin/srvctl config database -d orcl '' (0, [], [])] =
     (Inr (), [RunCommand ''/opt/db/a/bin/srvctl config database -d orcl '' (0, [], []),
               Connect ''dbhost:1521/orcl'' None])"
    by (simp add: getconn_host)
  have queried: "execute_sql_get
     (host None all_ok
        (db_queries [''smallfile'', ''temp'', ''users''] ''YES'' ''orcl1'' ''NOARCHIVELOG'' ''NO'' ''NO''))
     israc_sql
     [RunCommand ''/opt/db/a/bin/srvctl config database -d orcl '' (0, [], []),
      Connect ''dbhost:1521/orcl'' None] =
     (Inr [[Some ''YES'', Some ''orcl1'', Some ''dbhost'']],
      [RunCommand ''/opt/db/a/bin/srvctl config database -d orcl '' (0, [], []),
       Connect ''dbhost:1521/orcl'' None,
       SqlGet israc_sql (Inr [[Some ''YES'', Some ''orcl1'', Some ''dbhost'']])])"
    by (simp add: execute_sql_get_host db_queries_simps)
  have topology: "index2 [[Some ''YES'', Some ''orcl1'', Some ''dbhost'']] 0 0 = Inr (Some ''YES'')"
    by (simp add: index2_def index_def then_e_def)
  have removed: "run_command
     (host None all_ok
        (db_queries [''smallfile'', ''temp'', ''users''] ''YES'' ''orcl1'' ''NOARCHIVELOG'' ''NO'' ''NO''))
     [RunCommand ''/opt/db/a/bin/srvctl config database -d orcl '' (0, [], []),
      Connect ''dbhost:1521/orcl'' None,
      SqlGet israc_sql (Inr [[Some ''YES'', Some ''orcl1'', Some ''dbhost'']])]
     (delete_command ''/opt/db/a''
        (removal_identifier (gimanaged (ctx0 True False)) ''orcl'' (Some ''orcl1'') None (Some ''YES''))
        (Some ''secret'')) = (0, [], [])"
    by (simp add: host_def all_ok_def)
  have ident: "removal_identifier (gimanaged (ctx0 True False)) ''orcl'' (Some ''orcl1'') None (Some ''YES'') = ''orcl''"
    by (simp add: removal_identifier_def ctx0_fields)
  have run: "main_absent (ctx0 True False)
     (host None all_ok
        (db_queries [''smallfile'', ''temp'', ''users''] ''YES'' ''orcl1'' ''NOARCHIVELOG'' ''NO'' ''NO''))
     ''/opt/db/a'' ''orcl'' (Some ''orcl1'') None (Some ''secret'') [] =
     (Inl (ExitJson ''Successfully removed database orcl'' True),
      [RunCommand ''/opt/db/a/bin/srvctl config database -d orcl '' (0, [], []),
       Connect ''dbhost:1521/orcl'' None,
       SqlGet israc_sql (Inr [[Some ''YES'', Some ''orcl1'', Some ''dbhost'']]),
       RunCommand
         ''/opt/db/a/bin/dbca -deleteDatabase -silent -sourceDB orcl -sysDBAUserName sys -sysDBAPassword secret''
         (0, [], [])])"
    using conjunct2 [OF removal_identifier_resolution
        [OF located found connected queried topology removed]]
    by (simp add: removal_identifier_def ctx0_fields delete_command_def str_opt_def)
  from located found connected queried topology removed ident run
  show ?thesis by (intro conjI)
qed

text \<open>
  C9. \<^verbatim>\<open>ensure_db_state\<close> reads the three tablespace properties with a query ordered by
  the lowered value and unpacks the rows by position into (tablespace type, default
  tablespace, default temporary tablespace). For a database whose type is
  \<^verbatim>\<open>SMALLFILE\<close>, default tablespace \<^verbatim>\<open>USERS\<close> and default temporary tablespace
  \<^verbatim>\<open>TEMP\<close> the rows come as \<^verbatim>\<open>smallfile\<close>, \<^verbatim>\<open>temp\<close>, \<^verbatim>\<open>users\<close>: the declared default
  tablespace is compared with the value of the temporary one and the other way round. A
  pass that declares exactly the live values (\<^verbatim>\<open>users\<close>, \<^verbatim>\<open>temp\<close>) then finds two
  divergences, issues both \<^verbatim>\<open>alter database\<close> statements and reports a change.
\<close>

theorem tablespace_properties_unpacked_by_position:
  "propsql_answer
     \<lparr>DEFAULT_TBS_TYPE = ''SMALLFILE'', DEFAULT_PERMANENT_TABLESPACE = ''USERS'',
        DEFAULT_TEMP_TABLESPACE = ''TEMP''\<rparr> =
     [''smallfile'', ''temp'', ''users''] \<and>
   fst (observe (ctx0 False False)
     (host None all_ok
        (db_queries
          (propsql_answer
             \<lparr>DEFAULT_TBS_TYPE = ''SMALLFILE'', DEFAULT_PERMANENT_TABLESPACE = ''USERS'',
        DEFAULT_TEMP_TABLESPACE = ''TEMP''\<rparr>)
          ''NO'' ''orcl'' ''NOARCHIVELOG'' ''NO'' ''NO'')) []) =
     Inr ((observed_of ''smallfile'' ''temp'' ''users'' ''NO'' ''orcl'' ''NOARCHIVELOG'' ''NO'' ''NO''),
          Some ''orcl'', False) \<and>
   def_tbs (observed_of ''smallfile'' ''temp'' ''users'' ''NO'' ''orcl'' ''NOARCHIVELOG'' ''NO'' ''NO'') = [Some ''temp''] \<and>
   def_temp_tbs (observed_of ''smallfile'' ''temp'' ''users'' ''NO'' ''orcl'' ''NOARCHIVELOG'' ''NO'' ''NO'') = [Some ''users''] \<and>
   plan_changes
     \<lparr>archivelog = False, force_logging = False, flashback = False,
        default_tablespace_type = ''smallfile'', default_tablespace = Some ''users'',
        default_temp_tablespace = Some ''temp''\<rparr>
     (observed_of ''smallfile'' ''temp'' ''users'' ''NO'' ''orcl'' ''NOARCHIVELOG'' ''NO'' ''NO'') =
     Inr ([], [''alter database default tablespace users'',
               ''alter database default temporary tablespace temp'']) \<and>
   ensure_db_state (ctx0 False False)
     (host None all_ok
        (db_queries
          (propsql_answer
             \<lparr>DEFAULT_TBS_TYPE = ''SMALLFILE'', DEFAULT_PERMANENT_TABLESPACE = ''USERS'',
        DEFAULT_TEMP_TABLESPACE = ''TEMP''\<rparr>)
          ''NO'' ''orcl'' ''NOARCHIVELOG'' ''NO'' ''NO''))
     ''/opt/db/a'' ''orcl'' None None
     \<lparr>archivelog = False, force_logging = False, flashback = False,
        default_tablespace_type = ''smallfile'', default_tablespace = Some ''users'',
        default_temp_tablespace = Some ''temp''\<rparr> [] =
     (Inl (ExitJson
             ''Database orcl has been put in the intended state - Archivelog: False, Force Logging: False, Flashback: False''
             True),
      [Connect ''dbhost:1521/orcl'' None,
       SqlGet propsql (Inr [[Some ''smallfile''], [Some ''temp''], [Some ''users'']]),
       SqlGet israc_sql (Inr [[Some ''NO'', Some ''orcl'', Some ''dbhost'']]),
       SqlGet log_check_sql (Inr [[Some ''NOARCHIVELOG'', Some ''NO'', Some ''NO'']]),
       Connect ''dbhost:1521/orcl'' None,
       Sql ''alter database default tablespace users'' None,
       Sql ''alter database default temporary tablespace temp'' None])"
proof -
  have obs: "observe (ctx0 False False)
     (host None all_ok
        (db_queries
          (propsql_answer
             \<lparr>DEFAULT_TBS_TYPE = ''SMALLFILE'', DEFAULT_PERMANENT_TABLESPACE = ''USERS'',
        DEFAULT_TEMP_TABLESPACE = ''TEMP''\<rparr>)
          ''NO'' ''orcl'' ''NOARCHIVELOG'' ''NO'' ''NO'')) [] =
     (Inr ((observed_of ''smallfile'' ''temp'' ''users'' ''NO'' ''orcl'' ''NOARCHIVELOG'' ''NO'' ''NO''),
           Some ''orcl'', False),
      [Connect ''dbhost:1521/orcl'' None,
       SqlGet propsql (Inr [[Some ''smallfile''], [Some ''temp''], [Some ''users'']]),
       SqlGet israc_sql (Inr [[Some ''NO'', Some ''orcl'', Some ''dbhost'']]),
       SqlGet log_check_sql (Inr [[Some ''NOARCHIVELOG'', Some ''NO'', Some ''NO'']])])"
    unfolding propsql_answer_example by (simp add: observe_host')
  have cells: "def_tbs (observed_of ''smallfile'' ''temp'' ''users'' ''NO'' ''orcl'' ''NOARCHIVELOG'' ''NO'' ''NO'') = [Some ''temp''] \<and>
   def_temp_tbs (observed_of ''smallfile'' ''temp'' ''users'' ''NO'' ''orcl'' ''NOARCHIVELOG'' ''NO'' ''NO'') = [Some ''users'']"
    by (simp add: observed_of_def)
  have plan: "plan_changes
     \<lparr>archivelog = False, force_logging = False, flashback = False,
        default_tablespace_type = ''smallfile'', default_tablespace = Some ''users'',
        default_temp_tablespace = Some ''temp''\<rparr>
     (observed_of ''smallfile'' ''temp'' ''users'' ''NO'' ''orcl'' ''NOARCHIVELOG'' ''NO'' ''NO'') =
     Inr ([], [''alter database default tablespace users'',
               ''alter database default temporary tablespace temp''])"
    by (simp add: plan_changes_def then_e_def observed_cells archcomp_of_def flcomp_of_def
        fbcomp_of_def deftbssql_of_def deftempsql_of_def)
  have first: "flashback_first
     \<lparr>archivelog = False, force_logging = False, flashback = False,
        default_tablespace_type = ''smallfile'', default_tablespace = Some ''users'',
        default_temp_tablespace = Some ''temp''\<rparr>
     (observed_of ''smallfile'' ''temp'' ''users'' ''NO'' ''orcl'' ''NOARCHIVELOG'' ''NO'' ''NO'') = Inr False"
    by (simp add: flashback_first_def then_e_def observed_cells)
  have run: "ensure_db_state (ctx0 False False)
     (host None all_ok
        (db_queries
          (propsql_answer
             \<lparr>DEFAULT_TBS_TYPE = ''SMALLFILE'', DEFAULT_PERMANENT_TABLESPACE = ''USERS'',
        DEFAULT_TEMP_TABLESPACE = ''TEMP''\<rparr>)
          ''NO'' ''orcl'' ''NOARCHIVELOG'' ''NO'' ''NO''))
     ''/opt/db/a'' ''orcl'' None None
     \<lparr>archivelog = False, force_logging = False, flashback = False,
        default_tablespace_type = ''smallfile'', default_tablespace = Some ''users'',
        default_temp_tablespace = Some ''temp''\<rparr> [] =
     (Inl (ExitJson
             ''Database orcl has been put in the intended state - Archivelog: False, Force Logging: False, Flashback: False''
             True),
      [Connect ''dbhost:1521/orcl'' None,
       SqlGet propsql (Inr [[Some ''smallfile''], [Some ''temp''], [Some ''users'']]),
       SqlGet israc_sql (Inr [[Some ''NO'', Some ''orcl'', Some ''dbhost'']]),
       SqlGet log_check_sql (Inr [[Some ''NOARCHIVELOG'', Some ''NO'', Some ''NO'']]),
       Connect ''dbhost:1521/orcl'' None,
       Sql ''alter database default tablespace users'' None,
       Sql ''alter database default temporary tablespace temp'' None])"
    by (simp add: ensure_db_state_def and_then_def obs plan first lift_def
        apply_norestart_changes_host halt_def ret_def intended_state_msg_def str_bool_def)
  from propsql_answer_example obs cells plan run show ?thesis by simp
qed

end
